theory Spec2Isabelle
  imports Complex_Main
begin

section \<open>Python values shared by the agents\<close>

text \<open>
  Exceptions are values. Only the classes that the modelled code can raise are listed;
  \<open>ProviderError\<close> stands for whatever the market-data library raises (network failure,
  unknown symbol, rate limit) and carries its message.
\<close>

datatype exn =
    AttributeError string
  | TypeError string
  | ValueError string
  | ZeroDivisionError
  | StopIteration
  | ProviderError string

text \<open>
  A Python/numpy float. Finite values are real numbers (rounding is not modelled and
  \<open>-0.0\<close> is identified with \<open>0.0\<close>); the three special values are kept, since
  division by zero produces them in numpy and every comparison with \<open>NaN\<close> is false.
\<close>

datatype pyfloat = NaN | NInf | Fin real | PInf

text \<open>
  The \<open>Close\<close> column of the frame returned by the provider, with its
  \<open>DatetimeIndex\<close>: one row per timestamp.
\<close>

type_synonym dataframe = "(int \<times> pyfloat) list"

text \<open>A string between single quotes, as Python's messages and the f-strings have it.\<close>

definition quote :: "string \<Rightarrow> string" where
  "quote s = [CHR 0x27] @ s @ [CHR 0x27]"

subsection \<open>Float arithmetic\<close>

text \<open>
  The arithmetic of numpy scalars and arrays: no operation raises, division by zero
  gives an infinity or \<open>NaN\<close>, and \<open>NaN\<close> propagates. Every comparison with
  \<open>NaN\<close> is false.
\<close>

fun fneg :: "pyfloat \<Rightarrow> pyfloat" where
  "fneg NaN = NaN"
| "fneg NInf = PInf"
| "fneg PInf = NInf"
| "fneg (Fin a) = Fin (- a)"

fun fadd :: "pyfloat \<Rightarrow> pyfloat \<Rightarrow> pyfloat" where
  "fadd (Fin a) (Fin b) = Fin (a + b)"
| "fadd NaN y = NaN"
| "fadd x NaN = NaN"
| "fadd PInf NInf = NaN"
| "fadd NInf PInf = NaN"
| "fadd PInf y = PInf"
| "fadd NInf y = NInf"
| "fadd x PInf = PInf"
| "fadd x NInf = NInf"

definition fsub :: "pyfloat \<Rightarrow> pyfloat \<Rightarrow> pyfloat" where
  "fsub x y = fadd x (fneg y)"

text \<open>The sign of a value that is not \<open>NaN\<close>: \<open>-1\<close>, \<open>0\<close> or \<open>1\<close>.\<close>

fun fsgn :: "pyfloat \<Rightarrow> int" where
  "fsgn (Fin a) = (if a < 0 then - 1 else if a = 0 then 0 else 1)"
| "fsgn PInf = 1"
| "fsgn NInf = - 1"
| "fsgn NaN = 0"

definition inf_of_sign :: "int \<Rightarrow> pyfloat" where
  "inf_of_sign k = (if k < 0 then NInf else if k = 0 then NaN else PInf)"

fun fmul :: "pyfloat \<Rightarrow> pyfloat \<Rightarrow> pyfloat" where
  "fmul (Fin a) (Fin b) = Fin (a * b)"
| "fmul NaN y = NaN"
| "fmul x NaN = NaN"
| "fmul x y = inf_of_sign (fsgn x * fsgn y)"

fun fdiv :: "pyfloat \<Rightarrow> pyfloat \<Rightarrow> pyfloat" where
  "fdiv (Fin a) (Fin b) = (if b = 0 then inf_of_sign (fsgn (Fin a)) else Fin (a / b))"
| "fdiv NaN y = NaN"
| "fdiv x NaN = NaN"
| "fdiv (Fin a) y = Fin 0"
| "fdiv x (Fin b) = inf_of_sign (fsgn x * (if b < 0 then - 1 else 1))"
| "fdiv x y = NaN"

fun flt :: "pyfloat \<Rightarrow> pyfloat \<Rightarrow> bool" where
  "flt (Fin a) (Fin b) = (a < b)"
| "flt NaN y = False"
| "flt x NaN = False"
| "flt NInf NInf = False"
| "flt NInf y = True"
| "flt x NInf = False"
| "flt PInf y = False"
| "flt x PInf = True"

definition fgt :: "pyfloat \<Rightarrow> pyfloat \<Rightarrow> bool" where
  "fgt x y = flt y x"

fun fle :: "pyfloat \<Rightarrow> pyfloat \<Rightarrow> bool" where
  "fle NaN y = False"
| "fle x NaN = False"
| "fle x y = (x = y \<or> flt x y)"

fun is_nan :: "pyfloat \<Rightarrow> bool" where
  "is_nan NaN = True"
| "is_nan x = False"

fun fabs :: "pyfloat \<Rightarrow> pyfloat" where
  "fabs NaN = NaN"
| "fabs NInf = PInf"
| "fabs PInf = PInf"
| "fabs (Fin a) = Fin \<bar>a\<bar>"

section \<open>APIAgent (src/Agents.py)\<close>

text \<open>
  The market-data library as the agent sees it: \<open>history\<close> is the result of
  \<open>yf.Ticker(ticker).history(period, interval)\<close>, which either raises or returns a frame,
  and \<open>latency\<close> is the wall-clock time such a request takes. \<open>calendar_ok\<close> tells
  whether \<open>stock.calendar\<close> is a non-empty table (or raises), and \<open>earnings\<close> is
  \<open>stock.earnings\<close>: raising, or \<open>None\<close> when the table is absent, empty or lacks the
  \<open>Earnings\<close>/\<open>Revenue\<close> columns, or the last row's \<open>Earnings\<close> value with its
  \<open>Estimate\<close> value when that column exists.
\<close>

record yfinance =
  history :: "string \<Rightarrow> string \<Rightarrow> string \<Rightarrow> exn + dataframe"
  latency :: real
  calendar_ok :: "string \<Rightarrow> exn + bool"
  earnings :: "string \<Rightarrow> exn + (pyfloat \<times> pyfloat option) option"

text \<open>
  The agent's attributes (\<open>cache\<close>, \<open>cache_expiry\<close>, \<open>cache_duration\<close>) together with
  the two parts of the environment that \<open>get_stock_data\<close> reads or changes: the wall
  clock \<open>clock\<close> (what \<open>datetime.now().timestamp()\<close> returns) and \<open>fetches\<close>, the
  log of the requests sent upstream so far.
\<close>

record api_agent =
  cache :: "string \<rightharpoonup> dataframe"
  cache_expiry :: "string \<rightharpoonup> real"
  cache_duration :: real
  clock :: real
  fetches :: "(string \<times> string \<times> string) list"

text \<open>\<open>APIAgent.__init__\<close>, started at wall-clock time \<open>t\<close>.\<close>

definition init_agent :: "real \<Rightarrow> api_agent" where
  "init_agent t =
     \<lparr>cache = Map.empty, cache_expiry = Map.empty, cache_duration = 300,
      clock = t, fetches = []\<rparr>"

text \<open>Time passing between two calls.\<close>

definition elapse :: "real \<Rightarrow> api_agent \<Rightarrow> api_agent" where
  "elapse dt s = s\<lparr>clock := clock s + dt\<rparr>"

definition cache_key_of :: "string \<Rightarrow> string \<Rightarrow> string \<Rightarrow> string" where
  "cache_key_of ticker period interval = ticker @ ''_'' @ period @ ''_'' @ interval"

text \<open>\<open>self.cache_expiry.get(cache_key, 0)\<close>\<close>

definition expiry_get :: "api_agent \<Rightarrow> string \<Rightarrow> real" where
  "expiry_get s k = (case cache_expiry s k of None \<Rightarrow> 0 | Some e \<Rightarrow> e)"

text \<open>
  \<open>APIAgent.get_stock_data\<close>. A live entry is returned without touching anything.
  Otherwise the request goes upstream (it is logged and takes \<open>latency\<close>); a frame is
  stored with the expiry computed from the clock read after the request, and an
  exception is logged and re-raised by the bare \<open>raise\<close> of the handler.
\<close>

definition get_stock_data ::
  "yfinance \<Rightarrow> api_agent \<Rightarrow> string \<Rightarrow> string \<Rightarrow> string \<Rightarrow> (exn + dataframe) \<times> api_agent" where
  "get_stock_data yf s ticker period interval =
     (let cache_key = cache_key_of ticker period interval in
      if cache s cache_key \<noteq> None \<and> expiry_get s cache_key > clock s
      then (Inr (the (cache s cache_key)), s)
      else
        (let s1 = s\<lparr>clock := clock s + latency yf,
                    fetches := fetches s @ [(ticker, period, interval)]\<rparr> in
         case history yf ticker period interval of
           Inr data \<Rightarrow>
             (Inr data,
              s1\<lparr>cache := (cache s1)(cache_key \<mapsto> data),
                 cache_expiry := (cache_expiry s1)(cache_key \<mapsto> clock s1 + cache_duration s1)\<rparr>)
         | Inl e \<Rightarrow> (Inl e, s1)))"

text \<open>
  \<open>APIAgent.get_multiple_stocks\<close>: every failure of \<open>get_stock_data\<close> is caught and
  stored as \<open>None\<close> for that ticker. The interval is the default \<open>"1h"\<close>. A dict is
  kept as an association list in insertion order, a repeated ticker replacing its value.
\<close>

fun dict_set :: "('k \<times> 'v) list \<Rightarrow> 'k \<Rightarrow> 'v \<Rightarrow> ('k \<times> 'v) list" where
  "dict_set [] k v = [(k, v)]"
| "dict_set ((k', v') # kvs) k v =
     (if k' = k then (k, v) # kvs else (k', v') # dict_set kvs k v)"

fun get_multiple_stocks_loop ::
  "yfinance \<Rightarrow> string \<Rightarrow> string list \<Rightarrow> (string \<times> dataframe option) list \<Rightarrow> api_agent
     \<Rightarrow> (string \<times> dataframe option) list \<times> api_agent" where
  "get_multiple_stocks_loop yf period [] result s = (result, s)"
| "get_multiple_stocks_loop yf period (ticker # tickers) result s =
     (case get_stock_data yf s ticker period ''1h'' of
        (Inr data, s') \<Rightarrow>
          get_multiple_stocks_loop yf period tickers (dict_set result ticker (Some data)) s'
      | (Inl e, s') \<Rightarrow>
          get_multiple_stocks_loop yf period tickers (dict_set result ticker None) s')"

definition get_multiple_stocks ::
  "yfinance \<Rightarrow> api_agent \<Rightarrow> string list \<Rightarrow> string
     \<Rightarrow> (string \<times> dataframe option) list \<times> api_agent" where
  "get_multiple_stocks yf s tickers period = get_multiple_stocks_loop yf period tickers [] s"

text \<open>A provider that is rate limited for every request, and one that always answers.\<close>

definition failing_yf :: yfinance where
  "failing_yf =
     \<lparr>history = (\<lambda>ticker period interval. Inl (ProviderError ''rate limited'')),
      latency = 2,
      calendar_ok = (\<lambda>ticker. Inl (ProviderError ''rate limited'')),
      earnings = (\<lambda>ticker. Inl (ProviderError ''rate limited''))\<rparr>"

definition steady_yf :: "dataframe \<Rightarrow> yfinance" where
  "steady_yf d =
     \<lparr>history = (\<lambda>ticker period interval. Inr d),
      latency = 2,
      calendar_ok = (\<lambda>ticker. Inr False),
      earnings = (\<lambda>ticker. Inr None)\<rparr>"

section \<open>LanguageService (src/services/language_services.py)\<close>

text \<open>
  Strings are byte lists, so \<open>str.lower\<close> is modelled on ASCII: the letters
  \<open>A\<close> to \<open>Z\<close> are mapped to \<open>a\<close> to \<open>z\<close> and every other byte is kept.
\<close>

definition lower_char :: "char \<Rightarrow> char" where
  "lower_char c =
     (let n = (of_char c :: nat) in if 65 \<le> n \<and> n \<le> 90 then char_of (n + 32) else c)"

definition lower :: "string \<Rightarrow> string" where
  "lower s = map lower_char s"

text \<open>\<open>s.startswith(sub)\<close> and the substring test \<open>sub in s\<close>.\<close>

fun startswith :: "string \<Rightarrow> string \<Rightarrow> bool" where
  "startswith s [] = True"
| "startswith [] (c # cs) = False"
| "startswith (x # xs) (c # cs) = (x = c \<and> startswith xs cs)"

fun contains :: "string \<Rightarrow> string \<Rightarrow> bool" where
  "contains [] sub = (sub = [])"
| "contains (x # xs) sub = (startswith (x # xs) sub \<or> contains xs sub)"

text \<open>
  \<open>s.count(sub)\<close>: the number of non-overlapping occurrences, scanning from the left.
  After a match the scan resumes behind it, which \<open>count_from\<close> does by skipping
  the remaining \<open>length sub - 1\<close> characters. For the empty string Python returns
  \<open>len(s) + 1\<close>.
\<close>

fun count_from :: "nat \<Rightarrow> string \<Rightarrow> string \<Rightarrow> nat" where
  "count_from k [] sub = 0"
| "count_from (Suc k) (x # xs) sub = count_from k xs sub"
| "count_from 0 (x # xs) sub =
     (if startswith (x # xs) sub then Suc (count_from (length sub - 1) xs sub)
      else count_from 0 xs sub)"

definition str_count :: "string \<Rightarrow> string \<Rightarrow> nat" where
  "str_count s sub = (if sub = [] then length s + 1 else count_from 0 s sub)"

text \<open>
  The keyword table \<open>intents\<close> of \<open>analyze_query_intent\<close>, in the insertion order
  in which the dict is iterated.
\<close>

definition intents :: "(string \<times> string) list" where
  "intents =
     [(''portfolio'', ''portfolio_analysis''),
      (''risk'', ''risk_assessment''),
      (''exposure'', ''risk_assessment''),
      (''market'', ''market_info''),
      (''indices'', ''market_info''),
      (''sector'', ''market_info''),
      (''stock'', ''stock_specific''),
      (''price'', ''stock_specific''),
      (''economic'', ''economic_data''),
      (''treasury'', ''economic_data''),
      (''yield'', ''economic_data''),
      (''earnings'', ''stock_specific'')]"

text \<open>
  The loop that determines the primary intent; its state is the pair
  \<open>(primary_intent, max_count)\<close>.
\<close>

fun primary_intent_loop ::
  "(string \<times> string) list \<Rightarrow> string \<Rightarrow> string \<times> nat \<Rightarrow> string \<times> nat" where
  "primary_intent_loop [] query_lower (primary_intent, max_count) = (primary_intent, max_count)"
| "primary_intent_loop ((keyword, intent) # rest) query_lower (primary_intent, max_count) =
     (if contains query_lower keyword then
        (let count = str_count query_lower keyword in
         if count > max_count then primary_intent_loop rest query_lower (intent, count)
         else primary_intent_loop rest query_lower (primary_intent, max_count))
      else primary_intent_loop rest query_lower (primary_intent, max_count))"

text \<open>
  The \<open>primary_intent\<close> field of the dict returned by
  \<open>LanguageService.analyze_query_intent\<close>. The other fields (entities, timeframe,
  requires_numeric_data, the fixed confidence 0.8) are computed independently of it and
  nothing in this part of the body can raise.
\<close>

definition analyze_query_intent :: "string \<Rightarrow> string" where
  "analyze_query_intent query =
     fst (primary_intent_loop intents (lower query) (''unknown'', 0))"

text \<open>
  The score the specification describes, for comparison with the code: an intent is
  scored by the occurrences of all the keywords registered for it.
\<close>

definition intent_score :: "string \<Rightarrow> string \<Rightarrow> nat" where
  "intent_score intent query_lower =
     sum_list (map (\<lambda>(keyword, i). str_count query_lower keyword)
                 (filter (\<lambda>(keyword, i). i = intent) intents))"

section \<open>AgentRouter (src/orchestrator/router.py)\<close>

text \<open>
  The values an intent dict can hold: the intent is parsed from JSON produced by a
  language model, so the value under \<open>entities\<close> need not be a list of strings.
\<close>

datatype pyval =
    PStr string
  | PInt int
  | PNone
  | PList "pyval list"
  | PDict "(string \<times> pyval) list"

type_synonym intent = "string \<rightharpoonup> pyval"

text \<open>A context item: its \<open>content\<close> and its \<open>metadata\<close> dict.\<close>

type_synonym ctx_item = "string \<times> (string \<times> string) list"

text \<open>
  The payload under \<open>data\<close> in a response, and the two shapes of response dict:
  \<open>{text, data}\<close> and the \<open>{text, source, error}\<close> of the exception handler.
  \<open>'j\<close> is the type of the structured results of the other agents.
\<close>

datatype 'j rdata =
    DEmpty
  | DMarket 'j 'j
  | DPortfolio 'j
  | DExposure 'j
  | DStocks "(string \<times> pyfloat \<times> pyfloat) list"
  | DIndicators 'j

datatype 'j response =
    Response string "'j rdata"
  | Fallback string string string

text \<open>
  The collaborators held by the router, as far as the router calls them. The methods of
  \<open>APIAgent\<close> and \<open>AnalysisAgent\<close> that catch every exception themselves are total;
  \<open>retrieve\<close> (the retriever agent is not part of the sources), \<open>get_stock_data\<close> and
  \<open>json.dumps\<close> may raise. \<open>LanguageAgent.generate_response\<close> wraps its whole body in
  \<open>try/except\<close> and returns a string in either case. \<open>fmt2f\<close> is the \<open>:.2f\<close>
  formatting of a float.
\<close>

record 'j agents =
  retrieve :: "string \<Rightarrow> exn + ctx_item list"
  generate_response :: "string \<Rightarrow> ctx_item list \<Rightarrow> string"
  api_market_indices :: 'j
  api_sector_performance :: 'j
  api_portfolio_data :: 'j
  api_economic_indicators :: 'j
  api_asia_tech_exposure :: 'j
  api_stock_data :: "string \<Rightarrow> exn + dataframe"
  api_stock_news :: "string \<Rightarrow> (string \<times> string) list"
  analysis_risk_exposure :: "string \<Rightarrow> string option \<Rightarrow> 'j"
  dumps :: "'j \<Rightarrow> exn + string"
  fmt2f :: "pyfloat \<Rightarrow> string"

definition str_of_exn :: "exn \<Rightarrow> string" where
  "str_of_exn e =
     (case e of AttributeError m \<Rightarrow> m | TypeError m \<Rightarrow> m | ValueError m \<Rightarrow> m
      | ZeroDivisionError \<Rightarrow> ''division by zero'' | StopIteration \<Rightarrow> ''''
      | ProviderError m \<Rightarrow> m)"

text \<open>
  \<open>for entity in entities\<close>: a list yields its elements, a string its characters, a
  dict its keys, and anything else is not iterable.
\<close>

definition py_iter :: "pyval \<Rightarrow> exn + pyval list" where
  "py_iter v =
     (case v of PList xs \<Rightarrow> Inr xs
      | PStr s \<Rightarrow> Inr (map (\<lambda>c. PStr [c]) s)
      | PDict kvs \<Rightarrow> Inr (map (\<lambda>(k, v). PStr k) kvs)
      | PInt n \<Rightarrow> Inl (TypeError (quote ''int'' @ '' object is not iterable''))
      | PNone \<Rightarrow> Inl (TypeError (quote ''NoneType'' @ '' object is not iterable'')))"

text \<open>\<open>str.isupper\<close> on ASCII: some cased character, and no lower-case one.\<close>

definition is_upper_char :: "char \<Rightarrow> bool" where
  "is_upper_char c = (65 \<le> (of_char c :: nat) \<and> (of_char c :: nat) \<le> 90)"

definition is_lower_char :: "char \<Rightarrow> bool" where
  "is_lower_char c = (97 \<le> (of_char c :: nat) \<and> (of_char c :: nat) \<le> 122)"

definition isupper :: "string \<Rightarrow> bool" where
  "isupper s = (list_ex is_upper_char s \<and> \<not> list_ex is_lower_char s)"

subsection \<open>The handlers\<close>

definition handle_market_info ::
  "'j agents \<Rightarrow> string \<Rightarrow> pyval \<Rightarrow> ctx_item list \<Rightarrow> exn + 'j response" where
  "handle_market_info ag query entities context =
     (let indices = api_market_indices ag; sectors = api_sector_performance ag in
      case dumps ag indices of Inl e \<Rightarrow> Inl e
      | Inr si \<Rightarrow>
        (case dumps ag sectors of Inl e \<Rightarrow> Inl e
         | Inr ss \<Rightarrow>
           (let context1 = context
                  @ [(''Current market indices: '' @ si, [(''type'', ''market_indices'')]),
                     (''Current sector performance: '' @ ss,
                        [(''type'', ''sector_performance'')])];
                text = generate_response ag query context1
            in Inr (Response text (DMarket indices sectors)))))"

definition handle_portfolio_analysis ::
  "'j agents \<Rightarrow> string \<Rightarrow> pyval \<Rightarrow> ctx_item list \<Rightarrow> exn + 'j response" where
  "handle_portfolio_analysis ag query entities context =
     (let portfolio = api_portfolio_data ag in
      case dumps ag portfolio of Inl e \<Rightarrow> Inl e
      | Inr sp \<Rightarrow>
        (let context1 = context @ [(''Portfolio data: '' @ sp, [(''type'', ''portfolio_data'')])];
             text = generate_response ag query context1
         in Inr (Response text (DPortfolio portfolio))))"

text \<open>
  The loop of \<open>_handle_risk_assessment\<close> over the entities; \<open>entity.lower()\<close> exists
  only on strings.
\<close>

fun risk_entities_loop ::
  "pyval list \<Rightarrow> string option \<times> string option \<Rightarrow> exn + (string option \<times> string option)" where
  "risk_entities_loop [] (region, sector) = Inr (region, sector)"
| "risk_entities_loop (entity # rest) (region, sector) =
     (case entity of
        PStr s \<Rightarrow>
          (if lower s \<in> set [''asia'', ''europe'', ''north america'', ''emerging markets'']
           then risk_entities_loop rest (Some s, sector)
           else if lower s \<in> set [''technology'', ''finance'', ''healthcare'', ''consumer'',
                                    ''energy'']
           then risk_entities_loop rest (region, Some s)
           else risk_entities_loop rest (region, sector))
      | PInt n \<Rightarrow>
          Inl (AttributeError (quote ''int'' @ '' object has no attribute '' @ quote ''lower''))
      | PNone \<Rightarrow>
          Inl (AttributeError (quote ''NoneType'' @ '' object has no attribute '' @ quote ''lower''))
      | PList xs \<Rightarrow>
          Inl (AttributeError (quote ''list'' @ '' object has no attribute '' @ quote ''lower''))
      | PDict kvs \<Rightarrow>
          Inl (AttributeError (quote ''dict'' @ '' object has no attribute '' @ quote ''lower'')))"

definition handle_risk_assessment ::
  "'j agents \<Rightarrow> string \<Rightarrow> pyval \<Rightarrow> ctx_item list \<Rightarrow> exn + 'j response" where
  "handle_risk_assessment ag query entities context =
     (case py_iter entities of Inl e \<Rightarrow> Inl e
      | Inr ents \<Rightarrow>
        (case risk_entities_loop ents (None, None) of Inl e \<Rightarrow> Inl e
         | Inr (region0, sector0) \<Rightarrow>
           (let region = (if region0 = None \<or> region0 = Some [] then ''Asia'' else the region0);
                sector = (if (sector0 = None \<or> sector0 = Some [])
                             \<and> contains (lower query) ''tech''
                          then Some ''Technology'' else sector0);
                exposure = analysis_risk_exposure ag region sector
            in case dumps ag exposure of Inl e \<Rightarrow> Inl e
               | Inr se \<Rightarrow>
                 (let context1 = context
                        @ [(''Risk exposure for '' @ region @ ''/''
                              @ (if sector = None \<or> sector = Some [] then ''all sectors''
                                 else the sector)
                              @ '': '' @ se, [(''type'', ''risk_exposure'')])]
                  in if contains (lower query) ''asia'' \<and> contains (lower query) ''tech''
                     then
                       (let asia_tech = api_asia_tech_exposure ag in
                        case dumps ag asia_tech of Inl e \<Rightarrow> Inl e
                        | Inr sa \<Rightarrow>
                          (let context2 = context1
                                 @ [(''Asia tech exposure: '' @ sa,
                                     [(''type'', ''asia_tech_exposure'')])]
                           in Inr (Response (generate_response ag query context2)
                                     (DExposure exposure))))
                     else Inr (Response (generate_response ag query context1)
                                 (DExposure exposure))))))"

text \<open>The three loops of \<open>_handle_stock_specific\<close>.\<close>

fun stock_entities_loop :: "pyval list \<Rightarrow> string list \<Rightarrow> exn + string list" where
  "stock_entities_loop [] tickers = Inr tickers"
| "stock_entities_loop (entity # rest) tickers =
     (case entity of
        PStr s \<Rightarrow>
          (if isupper s \<and> length s \<le> 5 then stock_entities_loop rest (tickers @ [s])
           else stock_entities_loop rest tickers)
      | PInt n \<Rightarrow>
          Inl (AttributeError (quote ''int'' @ '' object has no attribute '' @ quote ''isupper''))
      | PNone \<Rightarrow>
          Inl (AttributeError (quote ''NoneType'' @ '' object has no attribute '' @ quote ''isupper''))
      | PList xs \<Rightarrow>
          Inl (AttributeError (quote ''list'' @ '' object has no attribute '' @ quote ''isupper''))
      | PDict kvs \<Rightarrow>
          Inl (AttributeError (quote ''dict'' @ '' object has no attribute '' @ quote ''isupper'')))"

definition common_stocks :: "(string \<times> string) list" where
  "common_stocks =
     [(''apple'', ''AAPL''), (''microsoft'', ''MSFT''), (''google'', ''GOOGL''),
      (''amazon'', ''AMZN''), (''tesla'', ''TSLA''), (''facebook'', ''META''),
      (''nvidia'', ''NVDA''), (''tsmc'', ''TSM''), (''samsung'', ''005930.KS''),
      (''alibaba'', ''BABA''), (''tencent'', ''0700.HK'')]"

fun common_stocks_loop :: "(string \<times> string) list \<Rightarrow> string \<Rightarrow> string list \<Rightarrow> string list" where
  "common_stocks_loop [] query_lower tickers = tickers"
| "common_stocks_loop ((name, ticker) # rest) query_lower tickers =
     (if contains query_lower name \<and> ticker \<notin> set tickers
      then common_stocks_loop rest query_lower (tickers @ [ticker])
      else common_stocks_loop rest query_lower tickers)"

definition news_text :: "string \<Rightarrow> (string \<times> string) list \<Rightarrow> string" where
  "news_text ticker news =
     ''Recent news for '' @ ticker @ '':'' @ [CHR 0x0A]
       @ concat (map (\<lambda>(title, published). ''- '' @ title @ '' ('' @ published @ '')''
                        @ [CHR 0x0A]) (take 3 news))"

text \<open>
  The body of the \<open>try\<close> for one ticker either adds the price entry and the context
  items, or is abandoned by an exception of \<open>get_stock_data\<close>, which is logged.
\<close>

fun stock_data_loop ::
  "'j agents \<Rightarrow> string list \<Rightarrow> (string \<times> pyfloat \<times> pyfloat) list \<Rightarrow> ctx_item list
     \<Rightarrow> (string \<times> pyfloat \<times> pyfloat) list \<times> ctx_item list" where
  "stock_data_loop ag [] stock_data context = (stock_data, context)"
| "stock_data_loop ag (ticker # rest) stock_data context =
     (case api_stock_data ag ticker of
        Inl e \<Rightarrow> stock_data_loop ag rest stock_data context
      | Inr data \<Rightarrow>
          (let (stock_data1, context1) =
                 (if data \<noteq> [] then
                    (let latest_price = snd (last data);
                         prev_price = (if length data > 1 then snd (data ! (length data - 2))
                                       else snd (last data));
                         pct_change = fmul (fdiv (fsub latest_price prev_price) prev_price)
                                        (Fin 100)
                     in (dict_set stock_data ticker (latest_price, pct_change),
                         context @ [(''Stock data for '' @ ticker @ '': Price=$''
                                       @ fmt2f ag latest_price @ '', Change=''
                                       @ fmt2f ag pct_change @ ''%'',
                                     [(''type'', ''stock_data''), (''ticker'', ticker)])]))
                  else (stock_data, context));
               news = api_stock_news ag ticker;
               context2 = (if news \<noteq> []
                           then context1 @ [(news_text ticker news,
                                  [(''type'', ''stock_news''), (''ticker'', ticker)])]
                           else context1)
           in stock_data_loop ag rest stock_data1 context2))"

definition handle_stock_specific ::
  "'j agents \<Rightarrow> string \<Rightarrow> pyval \<Rightarrow> ctx_item list \<Rightarrow> exn + 'j response" where
  "handle_stock_specific ag query entities context =
     (case py_iter entities of Inl e \<Rightarrow> Inl e
      | Inr ents \<Rightarrow>
        (case stock_entities_loop ents [] of Inl e \<Rightarrow> Inl e
         | Inr tickers0 \<Rightarrow>
           (let tickers = common_stocks_loop common_stocks (lower query) tickers0;
                (stock_data, context1) = stock_data_loop ag tickers [] context;
                text = generate_response ag query context1
            in Inr (Response text (DStocks stock_data)))))"

definition handle_economic_data ::
  "'j agents \<Rightarrow> string \<Rightarrow> pyval \<Rightarrow> ctx_item list \<Rightarrow> exn + 'j response" where
  "handle_economic_data ag query entities context =
     (let indicators = api_economic_indicators ag in
      case dumps ag indicators of Inl e \<Rightarrow> Inl e
      | Inr si \<Rightarrow>
        (let context1 = context
               @ [(''Economic indicators: '' @ si, [(''type'', ''economic_indicators'')])];
             text = generate_response ag query context1
         in Inr (Response text (DIndicators indicators))))"

definition handle_default :: "'j agents \<Rightarrow> string \<Rightarrow> ctx_item list \<Rightarrow> exn + 'j response" where
  "handle_default ag query context = Inr (Response (generate_response ag query context) DEmpty)"

subsection \<open>route_query\<close>

text \<open>
  \<open>AgentRouter.route_query\<close> as the class that is defined last in the file has it
  (lines 139 to 176). There is no \<open>try\<close> in it: the call of the retriever and the
  handler's result are passed on as they are.
\<close>

definition route_query :: "'j agents \<Rightarrow> string \<Rightarrow> intent \<Rightarrow> exn + 'j response" where
  "route_query ag query intent =
     (let primary_intent = (case intent ''primary_intent'' of None \<Rightarrow> PStr ''unknown''
                            | Some v \<Rightarrow> v);
          entities = (case intent ''entities'' of None \<Rightarrow> PList [] | Some v \<Rightarrow> v)
      in case retrieve ag query of Inl e \<Rightarrow> Inl e
         | Inr context \<Rightarrow>
           (if primary_intent = PStr ''market_info''
            then handle_market_info ag query entities context
            else if primary_intent = PStr ''portfolio_analysis''
            then handle_portfolio_analysis ag query entities context
            else if primary_intent = PStr ''risk_assessment''
            then handle_risk_assessment ag query entities context
            else if primary_intent = PStr ''stock_specific''
            then handle_stock_specific ag query entities context
            else if primary_intent = PStr ''economic_data''
            then handle_economic_data ag query entities context
            else handle_default ag query context))"

text \<open>
  The earlier class of the same file (lines 38 to 82), which the later definition
  replaces. Its handlers are cut off in the sources, so they are taken as they are
  called: each gets the query and the entities, \<open>_fallback_retrieval\<close> the query and
  the confidence. The body is one \<open>try\<close> whose handler answers with the language
  agent alone and records the error.
\<close>

record 'j old_handlers =
  old_market_info :: "string \<Rightarrow> pyval \<Rightarrow> exn + 'j response"
  old_portfolio_analysis :: "string \<Rightarrow> pyval \<Rightarrow> exn + 'j response"
  old_risk_assessment :: "string \<Rightarrow> pyval \<Rightarrow> exn + 'j response"
  old_stock_specific :: "string \<Rightarrow> pyval \<Rightarrow> exn + 'j response"
  old_economic_data :: "string \<Rightarrow> pyval \<Rightarrow> exn + 'j response"
  old_fallback_retrieval :: "string \<Rightarrow> pyval \<Rightarrow> exn + 'j response"

definition route_query_try ::
  "'j agents \<Rightarrow> 'j old_handlers \<Rightarrow> string \<Rightarrow> intent \<Rightarrow> exn + 'j response" where
  "route_query_try ag hs query intent =
     (let primary_intent = (case intent ''primary_intent'' of None \<Rightarrow> PStr ''unknown''
                            | Some v \<Rightarrow> v);
          entities = (case intent ''entities'' of None \<Rightarrow> PList [] | Some v \<Rightarrow> v);
          confidence = (case intent ''confidence'' of None \<Rightarrow> PInt 0 | Some v \<Rightarrow> v);
          branch =
            (if primary_intent = PStr ''market_info''
             then old_market_info hs query entities
             else if primary_intent = PStr ''portfolio_analysis''
             then old_portfolio_analysis hs query entities
             else if primary_intent = PStr ''risk_assessment''
             then old_risk_assessment hs query entities
             else if primary_intent = PStr ''stock_specific''
             then old_stock_specific hs query entities
             else if primary_intent = PStr ''economic_data''
             then old_economic_data hs query entities
             else old_fallback_retrieval hs query confidence)
      in case branch of
           Inr response \<Rightarrow> Inr response
         | Inl e \<Rightarrow>
             Inr (Fallback (generate_response ag query []) ''language_agent'' (str_of_exn e)))"

text \<open>Collaborators that all answer, for the examples.\<close>

definition quiet_agents :: "string agents" where
  "quiet_agents =
     \<lparr>retrieve = (\<lambda>query. Inr []),
      generate_response = (\<lambda>query context. ''ok''),
      api_market_indices = ''{}'',
      api_sector_performance = ''{}'',
      api_portfolio_data = ''{}'',
      api_economic_indicators = ''{}'',
      api_asia_tech_exposure = ''{}'',
      api_stock_data = (\<lambda>ticker. Inr []),
      api_stock_news = (\<lambda>ticker. []),
      analysis_risk_exposure = (\<lambda>region sector. ''{}''),
      dumps = (\<lambda>j. Inr j),
      fmt2f = (\<lambda>x. ''0.00'')\<rparr>"

section \<open>AnalysisAgent (src/agents/analysis_agent.py)\<close>

subsection \<open>Series\<close>

text \<open>
  A pandas Series of floats: its index labels and its values, in order. The frames of
  the provider are indexed by timestamps; a Series built elsewhere can carry integer
  labels.
\<close>

datatype label = Ts int | Ix int

type_synonym series = "(label \<times> pyfloat) list"

definition close_of :: "dataframe \<Rightarrow> series" where
  "close_of data = map (\<lambda>(t, v). (Ts t, v)) data"

text \<open>\<open>Series.dropna()\<close> removes the \<open>NaN\<close> entries and nothing else.\<close>

definition dropna :: "series \<Rightarrow> series" where
  "dropna xs = filter (\<lambda>(l, v). \<not> is_nan v) xs"

text \<open>
  \<open>Series.pct_change()\<close>: the first entry is \<open>NaN\<close>, every other one is
  \<open>price[i] / price[i-1] - 1\<close>. Missing prices are not filled forward.
\<close>

fun pct_change_from :: "pyfloat \<Rightarrow> series \<Rightarrow> series" where
  "pct_change_from prev [] = []"
| "pct_change_from prev ((l, v) # rest) =
     (l, fsub (fdiv v prev) (Fin 1)) # pct_change_from v rest"

definition pct_change :: "series \<Rightarrow> series" where
  "pct_change xs = (case xs of [] \<Rightarrow> [] | (l, v) # rest \<Rightarrow> (l, NaN) # pct_change_from v rest)"

text \<open>
  \<open>Series.std()\<close>: the sample standard deviation (\<open>ddof = 1\<close>) of the entries that
  are not \<open>NaN\<close>; \<open>NaN\<close> when fewer than two entries remain or one is infinite.
\<close>

fun real_of_fin :: "pyfloat \<Rightarrow> real" where
  "real_of_fin (Fin a) = a"
| "real_of_fin x = 0"

fun is_fin :: "pyfloat \<Rightarrow> bool" where
  "is_fin (Fin a) = True"
| "is_fin x = False"

definition mean_real :: "real list \<Rightarrow> real" where
  "mean_real rs = sum_list rs / real (length rs)"

definition sumsq_dev :: "real list \<Rightarrow> real" where
  "sumsq_dev rs = sum_list (map (\<lambda>x. (x - mean_real rs) * (x - mean_real rs)) rs)"

definition std_vals :: "pyfloat list \<Rightarrow> pyfloat" where
  "std_vals vs =
     (let ws = filter (\<lambda>v. \<not> is_nan v) vs in
      if \<not> list_all is_fin ws \<or> length ws < 2 then NaN
      else Fin (sqrt (sumsq_dev (map real_of_fin ws) / (real (length ws) - 1))))"

definition std :: "series \<Rightarrow> pyfloat" where
  "std xs = std_vals (map snd xs)"

text \<open>\<open>Series.iloc[-window:]\<close> for a positive \<open>window\<close>: the last \<open>window\<close> entries.\<close>

definition iloc_last :: "nat \<Rightarrow> 'a list \<Rightarrow> 'a list" where
  "iloc_last window xs = drop (length xs - window) xs"

text \<open>
  \<open>Series.iloc[:k]\<close> with Python's slice rules: a negative \<open>k\<close> counts from the end.
\<close>

definition iloc_upto :: "int \<Rightarrow> 'a list \<Rightarrow> 'a list" where
  "iloc_upto k xs =
     (if k \<ge> 0 then take (nat k) xs else take (nat (int (length xs) + k)) xs)"

text \<open>
  \<open>Series.cummax()\<close>: the running maximum of the entries seen so far that are not
  \<open>NaN\<close>; a \<open>NaN\<close> entry stays \<open>NaN\<close>.
\<close>

definition fmax :: "pyfloat \<Rightarrow> pyfloat \<Rightarrow> pyfloat" where
  "fmax m x = (if flt m x then x else m)"

fun cummax_from :: "pyfloat option \<Rightarrow> pyfloat list \<Rightarrow> pyfloat list" where
  "cummax_from m [] = []"
| "cummax_from m (x # xs) =
     (if is_nan x then NaN # cummax_from m xs
      else (let m' = (case m of None \<Rightarrow> x | Some y \<Rightarrow> fmax y x)
            in m' # cummax_from (Some m') xs))"

definition cummax :: "series \<Rightarrow> series" where
  "cummax xs = zip (map fst xs) (cummax_from None (map snd xs))"

text \<open>
  \<open>Series.min()\<close> skips \<open>NaN\<close> and is \<open>NaN\<close> when nothing is left;
  \<open>Series.idxmin()\<close> is the label of the first entry that has this minimum, and
  raises \<open>ValueError\<close> on an empty Series or when every entry is \<open>NaN\<close>.
  \<open>idxmax\<close> is the same for the maximum.
\<close>

definition fmin :: "pyfloat \<Rightarrow> pyfloat \<Rightarrow> pyfloat" where
  "fmin m x = (if flt x m then x else m)"

fun nanmin_from :: "pyfloat \<Rightarrow> pyfloat list \<Rightarrow> pyfloat" where
  "nanmin_from m [] = m"
| "nanmin_from m (x # xs) =
     (if is_nan x then nanmin_from m xs
      else if is_nan m then nanmin_from x xs
      else nanmin_from (fmin m x) xs)"

definition series_min :: "series \<Rightarrow> pyfloat" where
  "series_min xs = nanmin_from NaN (map snd xs)"

fun nanmax_from :: "pyfloat \<Rightarrow> pyfloat list \<Rightarrow> pyfloat" where
  "nanmax_from m [] = m"
| "nanmax_from m (x # xs) =
     (if is_nan x then nanmax_from m xs
      else if is_nan m then nanmax_from x xs
      else nanmax_from (fmax m x) xs)"

fun first_label_of :: "pyfloat \<Rightarrow> series \<Rightarrow> label option" where
  "first_label_of v [] = None"
| "first_label_of v ((l, x) # rest) = (if x = v then Some l else first_label_of v rest)"

definition idxmin :: "series \<Rightarrow> exn + label" where
  "idxmin xs =
     (let m = series_min xs in
      if is_nan m then Inl (ValueError ''attempt to get argmin of an empty sequence'')
      else (case first_label_of m xs of
              None \<Rightarrow> Inl (ValueError ''attempt to get argmin of an empty sequence'')
            | Some l \<Rightarrow> Inr l))"

definition idxmax :: "series \<Rightarrow> exn + label" where
  "idxmax xs =
     (let m = nanmax_from NaN (map snd xs) in
      if is_nan m then Inl (ValueError ''attempt to get argmax of an empty sequence'')
      else (case first_label_of m xs of
              None \<Rightarrow> Inl (ValueError ''attempt to get argmax of an empty sequence'')
            | Some l \<Rightarrow> Inr l))"

subsection \<open>calculate_drawdown\<close>

text \<open>
  The drawdown Series \<open>(prices / running_max - 1) * 100\<close>, entry by entry.
\<close>

definition drawdown_series :: "series \<Rightarrow> series" where
  "drawdown_series prices =
     map (\<lambda>((l, p), (l', m)). (l, fmul (fsub (fdiv p m) (Fin 1)) (Fin 100)))
       (zip prices (cummax prices))"

record drawdown_result =
  max_drawdown :: pyfloat
  duration :: int

text \<open>
  \<open>AnalysisAgent.calculate_drawdown\<close>. \<open>idxmin\<close> returns an index label, which is then
  used as a position in \<open>prices.iloc[:...]\<close>: with a timestamp label the slice raises
  \<open>TypeError\<close>, with an integer label it is taken, and \<open>idxmax\<close> of an empty slice
  raises. Every exception ends in the handler, which returns the default. When the
  slice succeeds the labels are not timestamps, so the duration is 0.
\<close>

definition calculate_drawdown :: "series \<Rightarrow> drawdown_result" where
  "calculate_drawdown prices =
     (let drawdown = drawdown_series prices;
          dd_min = series_min drawdown;
          failed = \<lparr>max_drawdown = Fin 0, duration = 0\<rparr>
      in case idxmin drawdown of
           Inl e \<Rightarrow> failed
         | Inr (Ts t) \<Rightarrow> failed
         | Inr (Ix k) \<Rightarrow>
             (case idxmax (iloc_upto k prices) of
                Inl e \<Rightarrow> failed
              | Inr peak_idx \<Rightarrow> \<lparr>max_drawdown = dd_min, duration = 0\<rparr>))"

text \<open>
  Notions used in the proofs about the drawdown: one entry of the drawdown Series, the
  values of the drawdown Series for a running maximum \<open>m\<close> reached before, and the
  running maxima from which no positive drawdown can have been produced unnoticed.
\<close>

definition dd_val :: "pyfloat \<Rightarrow> pyfloat \<Rightarrow> pyfloat" where
  "dd_val p m = fmul (fsub (fdiv p m) (Fin 1)) (Fin 100)"

definition dd_vals :: "pyfloat option \<Rightarrow> pyfloat list \<Rightarrow> pyfloat list" where
  "dd_vals m ps = map (\<lambda>(p, c). dd_val p c) (zip ps (cummax_from m ps))"

fun good_max :: "pyfloat option \<Rightarrow> bool" where
  "good_max None = True"
| "good_max (Some (Fin a)) = (0 \<le> a)"
| "good_max (Some NaN) = False"
| "good_max (Some x) = True"

subsection \<open>calculate_volatility and the other per-asset metrics\<close>

text \<open>
  \<open>AnalysisAgent.calculate_volatility\<close>: the annualised standard deviation of the last
  \<open>window\<close> daily returns, or of all of them when there are fewer. (\<open>iloc[-0:]\<close> is
  the whole Series.) Nothing in the body raises on a Series of floats, so the default
  of the handler is never taken.
\<close>

definition calculate_volatility :: "series \<Rightarrow> nat \<Rightarrow> pyfloat" where
  "calculate_volatility prices window =
     (let returns = dropna (pct_change prices) in
      if length returns < window then fmul (std returns) (Fin (sqrt 252))
      else fmul (std (if window = 0 then returns else iloc_last window returns))
             (Fin (sqrt 252)))"

text \<open>
  \<open>calculate_beta\<close>, \<open>calculate_sharpe_ratio\<close> and \<open>calculate_var\<close> each wrap their
  body in \<open>try/except\<close> and return a float in either case; their results are stored
  and never inspected. They are taken as arbitrary total functions of their Series
  arguments (with the default window, risk-free rate and confidence).
\<close>

record analysis_fns =
  calculate_beta :: "series \<Rightarrow> series \<Rightarrow> pyfloat"
  calculate_sharpe_ratio :: "series \<Rightarrow> pyfloat"
  calculate_var :: "series \<Rightarrow> pyfloat"

subsection \<open>APIAgent.get_asia_tech_exposure (src/Agents.py)\<close>

definition asia_tech_stocks :: "string list" where
  "asia_tech_stocks =
     [''TSM'', ''2330.TW'', ''005930.KS'', ''9988.HK'', ''BABA'', ''9999.HK'', ''BIDU'',
      ''0700.HK'', ''TCEHY'', ''9618.HK'', ''JD'', ''6758.T'', ''SONY'', ''3690.HK'',
      ''MEITF'']"

text \<open>
  The first loop. For one ticker the body of the \<open>try\<close> fetches the 5-day frame
  (default interval \<open>"1h"\<close>), records the price entry
  \<open>(current_price, previous_price, percent_change)\<close> of a non-empty frame, and then
  looks at the calendar and the earnings table. An exception of \<open>get_stock_data\<close> or
  of the calendar abandons the rest of the body; one of the earnings table is passed
  over. \<open>latest_earning.get("Estimate", 0) or 0\<close> replaces a missing or zero estimate
  by 0.
\<close>

definition price_entry :: "dataframe \<Rightarrow> pyfloat \<times> pyfloat \<times> pyfloat" where
  "price_entry data =
     (let current_price = snd (last data);
          previous_price = (if length data > 1 then snd (data ! (length data - 2))
                            else snd (last data));
          percent_change =
            (if length data > 1
             then fmul (fdiv (fsub (snd (last data)) (snd (data ! (length data - 2))))
                          (snd (data ! (length data - 2)))) (Fin 100)
             else Fin 0)
      in (current_price, previous_price, percent_change))"

definition estimate_or_0 :: "pyfloat option \<Rightarrow> pyfloat" where
  "estimate_or_0 e = (case e of None \<Rightarrow> Fin 0 | Some v \<Rightarrow> if v = Fin 0 then Fin 0 else v)"

fun asia_tech_loop ::
  "yfinance \<Rightarrow> string list \<Rightarrow> (string \<times> pyfloat \<times> pyfloat \<times> pyfloat) list
     \<Rightarrow> (string \<times> pyfloat \<times> pyfloat) list \<Rightarrow> api_agent
     \<Rightarrow> (string \<times> pyfloat \<times> pyfloat \<times> pyfloat) list \<times> (string \<times> pyfloat \<times> pyfloat) list
         \<times> api_agent" where
  "asia_tech_loop yf [] stock_data earnings_surprises s = (stock_data, earnings_surprises, s)"
| "asia_tech_loop yf (ticker # rest) stock_data earnings_surprises s =
     (case get_stock_data yf s ticker ''5d'' ''1h'' of
        (Inl e, s') \<Rightarrow> asia_tech_loop yf rest stock_data earnings_surprises s'
      | (Inr data, s') \<Rightarrow>
          (let stock_data1 = (if data \<noteq> [] then dict_set stock_data ticker (price_entry data)
                              else stock_data)
           in case calendar_ok yf ticker of
                Inl e \<Rightarrow> asia_tech_loop yf rest stock_data1 earnings_surprises s'
              | Inr usable \<Rightarrow>
                  (if usable then
                     (case earnings yf ticker of
                        Inl e \<Rightarrow> asia_tech_loop yf rest stock_data1 earnings_surprises s'
                      | Inr None \<Rightarrow> asia_tech_loop yf rest stock_data1 earnings_surprises s'
                      | Inr (Some (earning, estimate)) \<Rightarrow>
                          asia_tech_loop yf rest stock_data1
                            (dict_set earnings_surprises ticker
                               (earning, estimate_or_0 estimate)) s')
                   else asia_tech_loop yf rest stock_data1 earnings_surprises s')))"

text \<open>
  \<open>round(x, 2)\<close>: to the nearest multiple of 0.01, a tie going to the even one;
  infinities and \<open>NaN\<close> are returned as they are. The value rounded is the exact one:
  where the binary float nearest to a decimal tie lies just beside it, Python rounds to
  the other neighbour.
\<close>

definition round_half_even :: "real \<Rightarrow> int" where
  "round_half_even x =
     (let f = \<lfloor>x\<rfloor>; d = x - of_int f in
      if d < 1 / 2 then f else if d > 1 / 2 then f + 1 else if even f then f else f + 1)"

fun fround2 :: "pyfloat \<Rightarrow> pyfloat" where
  "fround2 (Fin a) = Fin (of_int (round_half_even (a * 100)) / 100)"
| "fround2 x = x"

text \<open>\<open>ticker.split('.')[0] if '.' in ticker else ticker\<close>\<close>

definition company_name :: "string \<Rightarrow> string" where
  "company_name ticker = takeWhile (\<lambda>c. c \<noteq> CHR ''.'') ticker"

definition surprise_percent :: "pyfloat \<Rightarrow> pyfloat \<Rightarrow> pyfloat" where
  "surprise_percent surprise estimate =
     fmul (fdiv (fsub surprise estimate) estimate) (Fin 100)"

text \<open>The loop that selects the significant surprises.\<close>

fun significant_loop ::
  "(string \<times> pyfloat \<times> pyfloat) list \<Rightarrow> (string \<times> pyfloat) list \<Rightarrow> (string \<times> pyfloat) list" where
  "significant_loop [] significant_surprises = significant_surprises"
| "significant_loop ((ticker, surprise, estimate) # rest) significant_surprises =
     (if fgt estimate (Fin 0) then
        (if fgt (fabs (surprise_percent surprise estimate)) (Fin 1)
         then significant_loop rest
                (dict_set significant_surprises (company_name ticker)
                   (fround2 (surprise_percent surprise estimate)))
         else significant_loop rest significant_surprises)
      else significant_loop rest significant_surprises)"

text \<open>\<open>sum(values)\<close> of Python, which starts from 0.\<close>

definition py_sum :: "pyfloat list \<Rightarrow> pyfloat" where
  "py_sum vs = foldl fadd (Fin 0) vs"

definition sentiment_of :: "pyfloat \<Rightarrow> string" where
  "sentiment_of total_change =
     (if fgt total_change (Fin 2) then ''bullish''
      else if fgt total_change (Fin (1 / 2)) then ''slightly bullish''
      else if fgt total_change (Fin (- (1 / 2))) then ''neutral''
      else if fgt total_change (Fin (- 2)) then ''slightly bearish''
      else ''bearish'')"

record asia_exposure =
  exposure_percentage :: int
  exposure_previous_percentage :: int
  exposure_change :: int
  exposure_movement_direction :: string
  asia_earnings_surprises :: "(string \<times> pyfloat) list"
  asia_sentiment :: string
  asia_avg_price_change :: pyfloat

text \<open>
  \<open>APIAgent.get_asia_tech_exposure\<close>. It takes no argument besides the agent: the
  tickers are those of \<open>asia_tech_stocks\<close>. (The two totals of the prices are computed
  and not used.)
\<close>

definition get_asia_tech_exposure :: "yfinance \<Rightarrow> api_agent \<Rightarrow> asia_exposure \<times> api_agent" where
  "get_asia_tech_exposure yf s =
     (let (stock_data, earnings_surprises, s') = asia_tech_loop yf asia_tech_stocks [] [] s;
          portfolio_percentage = 22;
          previous_portfolio_percentage = 18;
          significant_surprises = significant_loop earnings_surprises [];
          total_change =
            (if stock_data \<noteq> []
             then fdiv (py_sum (map (\<lambda>(ticker, cur, prev, pct). pct) stock_data))
                    (Fin (real (length stock_data)))
             else Fin 0)
      in (\<lparr>exposure_percentage = portfolio_percentage,
           exposure_previous_percentage = previous_portfolio_percentage,
           exposure_change = portfolio_percentage - previous_portfolio_percentage,
           exposure_movement_direction =
             (if portfolio_percentage > previous_portfolio_percentage then ''up'' else ''down''),
           asia_earnings_surprises = significant_surprises,
           asia_sentiment = sentiment_of total_change,
           asia_avg_price_change = fround2 total_change\<rparr>, s'))"

subsection \<open>analyze_risk_exposure\<close>

definition region_mapping :: "(string \<times> (string \<times> string list) list) list" where
  "region_mapping =
     [(''Asia'',
         [(''Technology'', [''TSM'', ''005930.KS'', ''9988.HK'', ''0700.HK'', ''6758.T'']),
          (''Finance'', [''8306.T'', ''8316.T'', ''3988.HK'', ''1398.HK'', ''000001.SS'']),
          (''Consumer'', [''9633.T'', ''6758.T'', ''2330.TW'', ''1177.HK'', ''1211.HK'']),
          (''Healthcare'', [''4502.T'', ''4503.T'', ''1177.HK'', ''3320.HK'', ''1093.HK''])]),
      (''Europe'',
         [(''Technology'', [''ASML.AS'', ''SAP.DE'', ''CAP.PA'', ''STM.PA'', ''ERIC-B.ST'']),
          (''Finance'', [''HSBA.L'', ''BNP.PA'', ''SAN.MC'', ''BBVA.MC'', ''DBK.DE'']),
          (''Consumer'', [''MC.PA'', ''OR.PA'', ''NESN.SW'', ''UL.AS'', ''AIR.PA'']),
          (''Healthcare'', [''ROG.SW'', ''SAN.PA'', ''NOVN.SW'', ''AZN.L'', ''GSK.L''])]),
      (''North America'',
         [(''Technology'', [''AAPL'', ''MSFT'', ''GOOGL'', ''AMZN'', ''META'']),
          (''Finance'', [''JPM'', ''BAC'', ''WFC'', ''C'', ''GS'']),
          (''Consumer'', [''COST'', ''WMT'', ''HD'', ''NKE'', ''MCD'']),
          (''Healthcare'', [''JNJ'', ''PFE'', ''MRK'', ''ABT'', ''UNH''])])]"

text \<open>
  The loop that fetches the one-month frame of every resolved ticker; a failure is
  logged and the ticker is left out.
\<close>

fun exposure_fetch_loop ::
  "yfinance \<Rightarrow> string list \<Rightarrow> (string \<times> dataframe) list \<Rightarrow> api_agent
     \<Rightarrow> (string \<times> dataframe) list \<times> api_agent" where
  "exposure_fetch_loop yf [] stock_data s = (stock_data, s)"
| "exposure_fetch_loop yf (ticker # rest) stock_data s =
     (case get_stock_data yf s ticker ''1mo'' ''1d'' of
        (Inl e, s') \<Rightarrow> exposure_fetch_loop yf rest stock_data s'
      | (Inr data, s') \<Rightarrow> exposure_fetch_loop yf rest (dict_set stock_data ticker data) s')"

text \<open>
  The loop that computes the metrics of every non-empty frame. Its state is the
  \<open>metrics\<close> dict and the three lists \<open>volatilities\<close>, \<open>betas\<close>, \<open>variances\<close>.
\<close>

fun exposure_metrics_loop ::
  "analysis_fns \<Rightarrow> dataframe \<Rightarrow> (string \<times> dataframe) list
     \<Rightarrow> (string \<times> pyfloat \<times> pyfloat \<times> pyfloat) list \<times> pyfloat list \<times> pyfloat list \<times> pyfloat list
     \<Rightarrow> (string \<times> pyfloat \<times> pyfloat \<times> pyfloat) list \<times> pyfloat list \<times> pyfloat list \<times> pyfloat list"
  where
  "exposure_metrics_loop fns market_data [] acc = acc"
| "exposure_metrics_loop fns market_data ((ticker, data) # rest)
       (metrics, volatilities, betas, variances) =
     (if data \<noteq> [] then
        (let returns = dropna (pct_change (close_of data));
             volatility = calculate_volatility (close_of data) 20;
             beta = calculate_beta fns (close_of data) (close_of market_data);
             var = calculate_var fns returns
         in exposure_metrics_loop fns market_data rest
              (dict_set metrics ticker (fmul volatility (Fin 100), beta, var),
               volatilities @ [fmul volatility (Fin 100)],
               betas @ [beta],
               variances @ [var]))
      else exposure_metrics_loop fns market_data rest
             (metrics, volatilities, betas, variances))"

text \<open>\<open>np.mean(values) if values else 0\<close>\<close>

definition mean_or_0 :: "pyfloat list \<Rightarrow> pyfloat" where
  "mean_or_0 vs = (if vs \<noteq> [] then fdiv (py_sum vs) (Fin (real (length vs))) else Fin 0)"

text \<open>The chain of comparisons that determines the risk level (lines 413 to 423).\<close>

definition risk_level_of :: "pyfloat \<Rightarrow> string" where
  "risk_level_of avg_volatility =
     (if fgt avg_volatility (Fin 30) then ''Very High''
      else if fgt avg_volatility (Fin 20) then ''High''
      else if fgt avg_volatility (Fin 15) then ''Moderate to High''
      else if fgt avg_volatility (Fin 10) then ''Moderate''
      else ''Low'')"

record exposure_report =
  report_region :: string
  report_sector :: "string option"
  report_tickers :: "string list"
  report_metrics :: "(string \<times> pyfloat \<times> pyfloat \<times> pyfloat) list"
  average_volatility :: pyfloat
  average_beta :: pyfloat
  average_var_95 :: pyfloat
  risk_level :: string
  earnings_surprises :: "(string \<times> pyfloat) list"
  sentiment :: "string option"

text \<open>The truth value of an optional string: \<open>None\<close> and \<open>""\<close> are false.\<close>

definition given :: "string option \<Rightarrow> bool" where
  "given v = (case v of None \<Rightarrow> False | Some x \<Rightarrow> x \<noteq> [])"

text \<open>
  \<open>AnalysisAgent.analyze_risk_exposure\<close>. The result is \<open>Inl message\<close> for the dict
  \<open>{'error': message}\<close> and \<open>Inr report\<close> for the report. \<open>if sector\<close> is false for
  \<open>None\<close> and for the empty string. The only exception that reaches the outer handler
  is the one of the benchmark fetch.
\<close>

definition analyze_risk_exposure ::
  "yfinance \<Rightarrow> analysis_fns \<Rightarrow> api_agent \<Rightarrow> string \<Rightarrow> string option
     \<Rightarrow> (string + exposure_report) \<times> api_agent" where
  "analyze_risk_exposure yf fns s region sector =
     (case map_of region_mapping region of
        None \<Rightarrow> (Inl (''Region '' @ quote region @ '' not supported''), s)
      | Some sectors \<Rightarrow>
          (if given sector \<and> map_of sectors (the sector) = None
           then (Inl (''Sector '' @ quote (the sector) @ '' not supported for region ''
                        @ quote region), s)
           else
             (let tickers = (if given sector
                             then the (map_of sectors (the sector))
                             else concat (map snd sectors));
                  (stock_data, s1) = exposure_fetch_loop yf tickers [] s
              in case get_stock_data yf s1 ''^GSPC'' ''1mo'' ''1d'' of
                   (Inl e, s2) \<Rightarrow> (Inl (str_of_exn e), s2)
                 | (Inr market_data, s2) \<Rightarrow>
                     (let (metrics, volatilities, betas, variances) =
                            exposure_metrics_loop fns market_data stock_data ([], [], [], []);
                          avg_volatility = mean_or_0 volatilities;
                          (asia_tech_exposure, s3) = get_asia_tech_exposure yf s2
                      in (Inr \<lparr>report_region = region,
                                report_sector = sector,
                                report_tickers = tickers,
                                report_metrics = metrics,
                                average_volatility = avg_volatility,
                                average_beta = mean_or_0 betas,
                                average_var_95 = mean_or_0 variances,
                                risk_level = risk_level_of avg_volatility,
                                earnings_surprises =
                                  asia_earnings_surprises asia_tech_exposure,
                                sentiment =
                                  (if region = ''Asia''
                                   then Some (asia_sentiment asia_tech_exposure)
                                   else None)\<rparr>, s3)))))"

subsection \<open>Concrete runs of analyze_risk_exposure\<close>

text \<open>
  Metric functions that return their defaults, a provider that knows the earnings of two
  tickers of the Asia technology list, and the reports of two runs on the finance
  sector of another region.
\<close>

definition const_fns :: analysis_fns where
  "const_fns =
     \<lparr>calculate_beta = (\<lambda>stock market. Fin 1),
      calculate_sharpe_ratio = (\<lambda>returns. Fin 0),
      calculate_var = (\<lambda>returns. Fin 0)\<rparr>"

definition earnings_yf :: yfinance where
  "earnings_yf =
     \<lparr>history = (\<lambda>ticker period interval. Inr []),
      latency = 1,
      calendar_ok = (\<lambda>ticker. Inr True),
      earnings = (\<lambda>ticker. if ticker = ''TSM'' then Inr (Some (Fin 110, Some (Fin 100)))
                             else if ticker = ''SONY'' then Inr (Some (Fin 100, Some (Fin 100)))
                             else Inr None)\<rparr>"

definition europe_finance_report :: exposure_report where
  "europe_finance_report =
     \<lparr>report_region = ''Europe'', report_sector = Some ''Finance'',
      report_tickers = [''HSBA.L'', ''BNP.PA'', ''SAN.MC'', ''BBVA.MC'', ''DBK.DE''],
      report_metrics = [], average_volatility = Fin 0, average_beta = Fin 0,
      average_var_95 = Fin 0, risk_level = ''Low'', earnings_surprises = [],
      sentiment = None\<rparr>"

definition america_finance_report :: exposure_report where
  "america_finance_report =
     \<lparr>report_region = ''North America'', report_sector = Some ''Finance'',
      report_tickers = [''JPM'', ''BAC'', ''WFC'', ''C'', ''GS''],
      report_metrics = [], average_volatility = Fin 0, average_beta = Fin 0,
      average_var_95 = Fin 0, risk_level = ''Low'',
      earnings_surprises = [(''TSM'', Fin 10)],
      sentiment = None\<rparr>"


subsection \<open>analyze_portfolio\<close>

text \<open>
  Python's \<open>w / sum(weights)\<close> on floats raises \<open>ZeroDivisionError\<close> when the
  divisor is zero and is IEEE division otherwise. The list comprehension divides
  every weight by the same sum, so an empty list raises nothing. (The message of the
  exception depends on the operand types; the model has one.)
\<close>

definition normalize_weights :: "pyfloat list \<Rightarrow> exn + pyfloat list" where
  "normalize_weights weights =
     (if weights \<noteq> [] \<and> py_sum weights = Fin 0 then Inl ZeroDivisionError
      else Inr (map (\<lambda>w. fdiv w (py_sum weights)) weights))"

record ticker_metrics =
  tm_volatility :: pyfloat
  tm_beta :: pyfloat
  tm_sharpe_ratio :: pyfloat
  tm_max_drawdown :: pyfloat
  tm_drawdown_duration :: int
  tm_var_95 :: pyfloat

text \<open>
  The loop over the tickers. Only \<open>get_stock_data\<close> can raise inside the inner
  \<open>try\<close>; the handler stores the message as the ticker's entry and leaves
  \<open>returns_data\<close> as it is. (\<open>stock_data\<close> is written and never read.)
\<close>

fun portfolio_loop ::
  "yfinance \<Rightarrow> analysis_fns \<Rightarrow> dataframe \<Rightarrow> string list \<Rightarrow> (string \<times> series) list
     \<Rightarrow> (string \<times> (string + ticker_metrics)) list \<Rightarrow> api_agent
     \<Rightarrow> (string \<times> series) list \<times> (string \<times> (string + ticker_metrics)) list \<times> api_agent"
  where
  "portfolio_loop yf fns market_data [] returns_data individual s =
     (returns_data, individual, s)"
| "portfolio_loop yf fns market_data (ticker # rest) returns_data individual s =
     (case get_stock_data yf s ticker ''1y'' ''1d'' of
        (Inl e, s') \<Rightarrow>
          portfolio_loop yf fns market_data rest returns_data
            (dict_set individual ticker (Inl (str_of_exn e))) s'
      | (Inr data, s') \<Rightarrow>
          (let returns = dropna (pct_change (close_of data));
               volatility = calculate_volatility (close_of data) 20;
               beta = calculate_beta fns (close_of data) (close_of market_data);
               sharpe = calculate_sharpe_ratio fns returns;
               drawdown = calculate_drawdown (close_of data);
               var = calculate_var fns returns
           in portfolio_loop yf fns market_data rest (dict_set returns_data ticker returns)
                (dict_set individual ticker
                   (Inr \<lparr>tm_volatility = fmul volatility (Fin 100),
                         tm_beta = beta,
                         tm_sharpe_ratio = sharpe,
                         tm_max_drawdown = max_drawdown drawdown,
                         tm_drawdown_duration = duration drawdown,
                         tm_var_95 = var\<rparr>)) s'))"

text \<open>
  \<open>Series.add(other, fill_value=0)\<close>. Two Series with the same index are added entry
  by entry; otherwise both are aligned on the sorted union of their labels (the labels
  of one Series are the timestamps of a frame, so they are distinct). A value that is
  missing or \<open>NaN\<close> on one side only is replaced by 0 before the addition.
\<close>

definition fill_add :: "pyfloat \<Rightarrow> pyfloat \<Rightarrow> pyfloat" where
  "fill_add x y =
     (if is_nan x \<and> is_nan y then NaN
      else fadd (if is_nan x then Fin 0 else x) (if is_nan y then Fin 0 else y))"

fun label_key :: "label \<Rightarrow> int" where
  "label_key (Ts t) = t"
| "label_key (Ix k) = k"

definition value_at :: "series \<Rightarrow> label \<Rightarrow> pyfloat" where
  "value_at xs l = (case map_of xs l of None \<Rightarrow> NaN | Some v \<Rightarrow> v)"

definition union_index :: "series \<Rightarrow> series \<Rightarrow> label list" where
  "union_index a b = sort_key label_key (remdups (map fst a @ map fst b))"

definition series_add_fill :: "series \<Rightarrow> series \<Rightarrow> series" where
  "series_add_fill a b =
     (if map fst a = map fst b
      then map (\<lambda>((l, x), (l', y)). (l, fill_add x y)) (zip a b)
      else map (\<lambda>l. (l, fill_add (value_at a l) (value_at b l))) (union_index a b))"

text \<open>\<open>returns * weight\<close>\<close>

definition series_scale :: "series \<Rightarrow> pyfloat \<Rightarrow> series" where
  "series_scale xs w = map (\<lambda>(l, v). (l, fmul v w)) xs"

text \<open>The loop that blends the returns of the tickers that have some.\<close>

fun blend_loop :: "(string \<times> pyfloat) list \<Rightarrow> (string \<times> series) list \<Rightarrow> series \<Rightarrow> series" where
  "blend_loop [] returns_data portfolio_returns = portfolio_returns"
| "blend_loop ((ticker, weight) # rest) returns_data portfolio_returns =
     (case map_of returns_data ticker of
        None \<Rightarrow> blend_loop rest returns_data portfolio_returns
      | Some returns \<Rightarrow>
          blend_loop rest returns_data
            (series_add_fill portfolio_returns (series_scale returns weight)))"

text \<open>
  \<open>DataFrame.corr()\<close> of two columns: the Pearson coefficient over the rows where both
  values are finite, \<open>NaN\<close> when there is no such row or when the divisor
  \<open>sqrt(ssqdm_x * ssqdm_y)\<close> is zero. The rows of two columns are the entries that
  carry the same label.
\<close>

definition sum_cross :: "real list \<Rightarrow> real list \<Rightarrow> real" where
  "sum_cross xs ys =
     sum_list (map (\<lambda>(x, y). (x - mean_real xs) * (y - mean_real ys)) (zip xs ys))"

definition nancorr :: "(pyfloat \<times> pyfloat) list \<Rightarrow> pyfloat" where
  "nancorr rows =
     (let obs = filter (\<lambda>(x, y). is_fin x \<and> is_fin y) rows;
          xs = map (\<lambda>(x, y). real_of_fin x) obs;
          ys = map (\<lambda>(x, y). real_of_fin y) obs;
          divisor = sqrt (sumsq_dev xs * sumsq_dev ys)
      in if length obs < 1 then NaN
         else if divisor \<noteq> 0 then Fin (sum_cross xs ys / divisor)
         else NaN)"

definition paired_rows :: "series \<Rightarrow> series \<Rightarrow> (pyfloat \<times> pyfloat) list" where
  "paired_rows a b =
     (if map fst a = map fst b then zip (map snd a) (map snd b)
      else concat (map (\<lambda>(l, x). case map_of b l of None \<Rightarrow> [] | Some y \<Rightarrow> [(x, y)]) a))"

text \<open>\<open>pd.DataFrame(returns_data).corr().round(2).to_dict()\<close>: column, then row.\<close>

definition correlation_matrix_of ::
  "(string \<times> series) list \<Rightarrow> (string \<times> (string \<times> pyfloat) list) list" where
  "correlation_matrix_of returns_data =
     map (\<lambda>(col, a). (col, map (\<lambda>(row, b). (row, fround2 (nancorr (paired_rows a b))))
                               returns_data))
       returns_data"

text \<open>
  The loop of the portfolio beta: \<open>.get('beta', 0)\<close> is 0 on the entry of a ticker
  that failed.
\<close>

fun portfolio_beta_loop ::
  "(string \<times> pyfloat) list \<Rightarrow> (string \<times> (string + ticker_metrics)) list \<Rightarrow> pyfloat \<Rightarrow> pyfloat"
  where
  "portfolio_beta_loop [] individual portfolio_beta = portfolio_beta"
| "portfolio_beta_loop ((ticker, weight) # rest) individual portfolio_beta =
     (case map_of individual ticker of
        None \<Rightarrow> portfolio_beta_loop rest individual portfolio_beta
      | Some (Inl e) \<Rightarrow>
          portfolio_beta_loop rest individual (fadd portfolio_beta (fmul (Fin 0) weight))
      | Some (Inr m) \<Rightarrow>
          portfolio_beta_loop rest individual (fadd portfolio_beta (fmul (tm_beta m) weight)))"

text \<open>
  The portfolio value Series: 1.0 at the first label, then compounded with the
  blended returns from the second entry on.
\<close>

fun portfolio_value_from :: "pyfloat \<Rightarrow> series \<Rightarrow> series" where
  "portfolio_value_from prev [] = []"
| "portfolio_value_from prev ((l, r) # rest) =
     (l, fmul prev (fadd (Fin 1) r)) # portfolio_value_from (fmul prev (fadd (Fin 1) r)) rest"

definition portfolio_value_of :: "series \<Rightarrow> series" where
  "portfolio_value_of portfolio_returns =
     (case portfolio_returns of
        [] \<Rightarrow> []
      | (l, r) # rest \<Rightarrow> (l, Fin 1) # portfolio_value_from (Fin 1) rest)"

record portfolio_report =
  pf_tickers :: "string list"
  pf_weights :: "pyfloat list"
  individual_metrics :: "(string \<times> (string + ticker_metrics)) list"
  pf_volatility :: pyfloat
  pf_beta :: pyfloat
  pf_sharpe_ratio :: pyfloat
  pf_max_drawdown :: pyfloat
  pf_drawdown_duration :: int
  pf_var_95 :: pyfloat
  correlation_matrix :: "(string \<times> (string \<times> pyfloat) list) list"

text \<open>
  \<open>AnalysisAgent.analyze_portfolio\<close>; \<open>Inl message\<close> is the dict
  \<open>{'error': message}\<close> of the outer handler. Three things reach that handler: the
  division of the weights by a zero sum, an exception of the benchmark fetch, and
  \<open>next(iter(...))\<close> on an empty \<open>returns_data\<close>.
\<close>

definition analyze_portfolio ::
  "yfinance \<Rightarrow> analysis_fns \<Rightarrow> api_agent \<Rightarrow> string list \<Rightarrow> pyfloat list option
     \<Rightarrow> (string + portfolio_report) \<times> api_agent" where
  "analyze_portfolio yf fns s portfolio_tickers weights =
     (case normalize_weights
             (case weights of
                None \<Rightarrow> map (\<lambda>t. Fin (1 / real (length portfolio_tickers))) portfolio_tickers
              | Some ws \<Rightarrow> ws) of
        Inl e \<Rightarrow> (Inl (str_of_exn e), s)
      | Inr weights1 \<Rightarrow>
          (case get_stock_data yf s ''^GSPC'' ''1y'' ''1d'' of
             (Inl e, s1) \<Rightarrow> (Inl (str_of_exn e), s1)
           | (Inr market_data, s1) \<Rightarrow>
               (case portfolio_loop yf fns market_data portfolio_tickers [] [] s1 of
                  (returns_data, individual, s2) \<Rightarrow>
                    (case returns_data of
                       [] \<Rightarrow> (Inl (str_of_exn StopIteration), s2)
                     | (first_ticker, first_returns) # others \<Rightarrow>
                         (let portfolio_returns =
                                blend_loop (zip portfolio_tickers weights1) returns_data
                                  (map (\<lambda>(l, v). (l, Fin 0)) first_returns);
                              portfolio_volatility =
                                fmul (std portfolio_returns) (Fin (sqrt 252));
                              portfolio_drawdown =
                                calculate_drawdown (portfolio_value_of portfolio_returns)
                          in (Inr \<lparr>pf_tickers = portfolio_tickers,
                                    pf_weights = weights1,
                                    individual_metrics = individual,
                                    pf_volatility = fmul portfolio_volatility (Fin 100),
                                    pf_beta =
                                      portfolio_beta_loop (zip portfolio_tickers weights1)
                                        individual (Fin 0),
                                    pf_sharpe_ratio =
                                      calculate_sharpe_ratio fns portfolio_returns,
                                    pf_max_drawdown = max_drawdown portfolio_drawdown,
                                    pf_drawdown_duration = duration portfolio_drawdown,
                                    pf_var_95 = calculate_var fns portfolio_returns,
                                    correlation_matrix =
                                      correlation_matrix_of returns_data\<rparr>, s2))))))"

text \<open>
  Notions used to state the properties of \<open>analyze_portfolio\<close>: the results of the
  year lookups an agent gives for a list of tickers, one after the other; the entry of
  the correlation matrix of a report for a column and a row; the portfolio volatility
  and a correlation entry of a result, absent when the result is the error dict; and
  the finite values of a Series.
\<close>

fun year_lookups :: "yfinance \<Rightarrow> api_agent \<Rightarrow> string list \<Rightarrow> (exn + dataframe) list" where
  "year_lookups yf s [] = []"
| "year_lookups yf s (ticker # rest) =
     fst (get_stock_data yf s ticker ''1y'' ''1d'')
       # year_lookups yf (snd (get_stock_data yf s ticker ''1y'' ''1d'')) rest"

definition corr_entry :: "portfolio_report \<Rightarrow> string \<Rightarrow> string \<Rightarrow> pyfloat option" where
  "corr_entry r col row =
     (case map_of (correlation_matrix r) col of None \<Rightarrow> None | Some c \<Rightarrow> map_of c row)"

definition finite_values :: "series \<Rightarrow> real list" where
  "finite_values xs = map real_of_fin (filter is_fin (map snd xs))"

definition portfolio_volatility_of :: "string + portfolio_report \<Rightarrow> pyfloat option" where
  "portfolio_volatility_of res = (case res of Inl e \<Rightarrow> None | Inr r \<Rightarrow> Some (pf_volatility r))"

definition correlation_of :: "string + portfolio_report \<Rightarrow> string \<Rightarrow> string \<Rightarrow> pyfloat option" where
  "correlation_of res col row =
     (case res of Inl e \<Rightarrow> None | Inr r \<Rightarrow> corr_entry r col row)"

subsection \<open>Concrete runs of analyze_portfolio\<close>

text \<open>
  A frame of three equal prices; a provider whose frames for \<open>AAA\<close> and \<open>BBB\<close> are
  proportional, so that their returns are the same; and one that has no benchmark.
\<close>

definition flat_frame :: dataframe where
  "flat_frame = [(1, Fin 10), (2, Fin 10), (3, Fin 10)]"

definition proportional_yf :: yfinance where
  "proportional_yf =
     \<lparr>history = (\<lambda>ticker period interval.
         if ticker = ''AAA'' then Inr [(1, Fin 10), (2, Fin 11), (3, Fin 11)]
         else if ticker = ''BBB'' then Inr [(1, Fin 20), (2, Fin 22), (3, Fin 22)]
         else Inr [(1, Fin 100), (2, Fin 101), (3, Fin 100)]),
      latency = 1,
      calendar_ok = (\<lambda>ticker. Inr False),
      earnings = (\<lambda>ticker. Inr None)\<rparr>"

definition no_benchmark_yf :: yfinance where
  "no_benchmark_yf =
     \<lparr>history = (\<lambda>ticker period interval.
         if ticker = ''^GSPC'' then Inl (ProviderError ''no data'')
         else Inr [(1, Fin 10), (2, Fin 11), (3, Fin 11)]),
      latency = 1,
      calendar_ok = (\<lambda>ticker. Inr False),
      earnings = (\<lambda>ticker. Inr None)\<rparr>"

section \<open>Properties of the quote cache\<close>

lemma get_stock_data_hit:
  assumes "cache s (cache_key_of ticker period interval) = Some d"
    and "expiry_get s (cache_key_of ticker period interval) > clock s"
  shows "get_stock_data yf s ticker period interval = (Inr d, s)"
  using assms by (simp add: get_stock_data_def Let_def)

lemma get_stock_data_miss_ok:
  assumes "\<not> (cache s (cache_key_of ticker period interval) \<noteq> None
              \<and> expiry_get s (cache_key_of ticker period interval) > clock s)"
    and "history yf ticker period interval = Inr d"
  shows "get_stock_data yf s ticker period interval =
           (Inr d,
            s\<lparr>clock := clock s + latency yf,
              fetches := fetches s @ [(ticker, period, interval)],
              cache := (cache s)(cache_key_of ticker period interval \<mapsto> d),
              cache_expiry := (cache_expiry s)(cache_key_of ticker period interval \<mapsto>
                 clock s + latency yf + cache_duration s)\<rparr>)"
  using assms by (auto simp add: get_stock_data_def Let_def)

lemma get_stock_data_miss_raise:
  assumes "\<not> (cache s (cache_key_of ticker period interval) \<noteq> None
              \<and> expiry_get s (cache_key_of ticker period interval) > clock s)"
    and "history yf ticker period interval = Inl e"
  shows "get_stock_data yf s ticker period interval =
           (Inl e,
            s\<lparr>clock := clock s + latency yf,
              fetches := fetches s @ [(ticker, period, interval)]\<rparr>)"
  using assms by (auto simp add: get_stock_data_def Let_def)

text \<open>
  C2 (as the code has it). When there is no live entry for the key and the provider
  raises, \<open>get_stock_data\<close> raises the same exception to its caller: the request was
  sent, nothing is stored and no default value is returned. With a live entry the
  provider is not consulted and the stored frame is returned.
\<close>

theorem get_stock_data_reraises:
  "(history yf ticker period interval = Inl e \<and>
    \<not> (cache s (cache_key_of ticker period interval) \<noteq> None
       \<and> expiry_get s (cache_key_of ticker period interval) > clock s)
    \<longrightarrow> fst (get_stock_data yf s ticker period interval) = Inl e
        \<and> cache (snd (get_stock_data yf s ticker period interval)) = cache s
        \<and> cache_expiry (snd (get_stock_data yf s ticker period interval)) = cache_expiry s
        \<and> fetches (snd (get_stock_data yf s ticker period interval))
            = fetches s @ [(ticker, period, interval)])
   \<and> (cache s (cache_key_of ticker period interval) = Some d
      \<and> expiry_get s (cache_key_of ticker period interval) > clock s
    \<longrightarrow> get_stock_data yf s ticker period interval = (Inr d, s))"
proof (intro conjI impI)
  assume a: "cache s (cache_key_of ticker period interval) = Some d
      \<and> expiry_get s (cache_key_of ticker period interval) > clock s"
  then show "get_stock_data yf s ticker period interval = (Inr d, s)"
    by (simp add: get_stock_data_hit)
next
  assume a: "history yf ticker period interval = Inl e \<and>
    \<not> (cache s (cache_key_of ticker period interval) \<noteq> None
       \<and> expiry_get s (cache_key_of ticker period interval) > clock s)"
  then have eq: "get_stock_data yf s ticker period interval =
           (Inl e, s\<lparr>clock := clock s + latency yf,
              fetches := fetches s @ [(ticker, period, interval)]\<rparr>)"
    using get_stock_data_miss_raise by blast
  show "fst (get_stock_data yf s ticker period interval) = Inl e"
    by (simp add: eq)
  show "cache (snd (get_stock_data yf s ticker period interval)) = cache s"
    by (simp add: eq)
  show "cache_expiry (snd (get_stock_data yf s ticker period interval)) = cache_expiry s"
    by (simp add: eq)
  show "fetches (snd (get_stock_data yf s ticker period interval))
            = fetches s @ [(ticker, period, interval)]"
    by (simp add: eq)
qed

theorem get_stock_data_reraises_witness:
  "fst (get_stock_data failing_yf (init_agent 1000) ''AAPL'' ''1d'' ''1h'')
     = Inl (ProviderError ''rate limited'')
   \<and> cache (snd (get_stock_data failing_yf (init_agent 1000) ''AAPL'' ''1d'' ''1h''))
       = Map.empty
   \<and> fetches (snd (get_stock_data failing_yf (init_agent 1000) ''AAPL'' ''1d'' ''1h''))
       = [(''AAPL'', ''1d'', ''1h'')]
   \<and> get_stock_data failing_yf
        ((init_agent 1000)\<lparr>cache := [''AAPL_1d_1h'' \<mapsto> [(5, Fin 7)]],
                            cache_expiry := [''AAPL_1d_1h'' \<mapsto> 1300]\<rparr>)
        ''AAPL'' ''1d'' ''1h''
       = (Inr [(5, Fin 7)],
          (init_agent 1000)\<lparr>cache := [''AAPL_1d_1h'' \<mapsto> [(5, Fin 7)]],
                             cache_expiry := [''AAPL_1d_1h'' \<mapsto> 1300]\<rparr>)"
  using get_stock_data_reraises [of failing_yf "''AAPL''" "''1d''" "''1h''"
          "ProviderError ''rate limited''" "init_agent 1000" "[]"]
        get_stock_data_reraises [of failing_yf "''AAPL''" "''1d''" "''1h''"
          "ProviderError ''rate limited''"
          "(init_agent 1000)\<lparr>cache := [''AAPL_1d_1h'' \<mapsto> [(5, Fin 7)]],
                              cache_expiry := [''AAPL_1d_1h'' \<mapsto> 1300]\<rparr>"
          "[(5, Fin 7)]"]
  by (simp add: failing_yf_def init_agent_def expiry_get_def cache_key_of_def)

text \<open>
  The claim as worded (the error does not pass the cache boundary, an empty or default
  value is returned instead) fails on a fresh agent whose provider is rate limited.
\<close>

theorem get_stock_data_degrades_counterexample:
  "fst (get_stock_data failing_yf (init_agent 1000) ''AAPL'' ''1d'' ''1h'')
     = Inl (ProviderError ''rate limited'')"
  by (simp add: get_stock_data_def failing_yf_def init_agent_def expiry_get_def
      cache_key_of_def)

text \<open>
  C3 (as the code has it). The claim holds when the provider answers: a first call
  that goes upstream and gets a frame \<open>d1\<close> sends exactly one request.
  A second call for the same ticker, period and interval made \<open>dt\<close> later, with
  \<open>dt < cache_duration\<close>, returns \<open>d1\<close> and sends nothing, whatever the provider would
  answer by then. A third call made once the stored expiry has been reached sends a
  second request, and the frame it gets replaces the entry, with a new expiry.
\<close>

theorem cache_correctness:
  assumes first_miss:
      "\<not> (cache s0 (cache_key_of ticker period interval) \<noteq> None
          \<and> expiry_get s0 (cache_key_of ticker period interval) > clock s0)"
    and first_ok: "history yf1 ticker period interval = Inr d1"
    and r1: "r1 = get_stock_data yf1 s0 ticker period interval"
    and within: "dt < cache_duration s0"
    and r2: "r2 = get_stock_data yf2 (elapse dt (snd r1)) ticker period interval"
    and after: "cache_duration s0 \<le> dt + dt'"
    and r3: "r3 = get_stock_data yf3 (elapse dt' (snd r2)) ticker period interval"
  shows "fst r1 = Inr d1
       \<and> fetches (snd r1) = fetches s0 @ [(ticker, period, interval)]
       \<and> fst r2 = Inr d1
       \<and> fetches (snd r2) = fetches s0 @ [(ticker, period, interval)]
       \<and> fetches (snd r3)
           = fetches s0 @ [(ticker, period, interval), (ticker, period, interval)]
       \<and> (\<forall>d3. history yf3 ticker period interval = Inr d3 \<longrightarrow>
            fst r3 = Inr d3
            \<and> cache (snd r3) (cache_key_of ticker period interval) = Some d3
            \<and> cache_expiry (snd r3) (cache_key_of ticker period interval)
                = Some (clock (snd r3) + cache_duration s0))"
proof -
  let ?k = "cache_key_of ticker period interval"
  let ?s1 = "s0\<lparr>clock := clock s0 + latency yf1,
              fetches := fetches s0 @ [(ticker, period, interval)],
              cache := (cache s0)(?k \<mapsto> d1),
              cache_expiry := (cache_expiry s0)(?k \<mapsto>
                 clock s0 + latency yf1 + cache_duration s0)\<rparr>"
  have e1: "r1 = (Inr d1, ?s1)"
    unfolding r1 using get_stock_data_miss_ok [OF first_miss first_ok] .
  have live: "cache (elapse dt ?s1) ?k = Some d1"
    "expiry_get (elapse dt ?s1) ?k > clock (elapse dt ?s1)"
    using within by (simp_all add: elapse_def expiry_get_def)
  have e2: "r2 = (Inr d1, elapse dt ?s1)"
    unfolding r2 e1 snd_conv using get_stock_data_hit [OF live] .
  let ?s2 = "elapse dt' (elapse dt ?s1)"
  have stale: "\<not> (cache ?s2 ?k \<noteq> None \<and> expiry_get ?s2 ?k > clock ?s2)"
    using after by (simp add: elapse_def expiry_get_def)
  have e3: "r3 = get_stock_data yf3 ?s2 ticker period interval"
    unfolding r3 e2 snd_conv ..
  have f3: "fetches (snd r3)
           = fetches s0 @ [(ticker, period, interval), (ticker, period, interval)]"
  proof (cases "history yf3 ticker period interval")
    case (Inl e)
    show ?thesis
      unfolding e3 get_stock_data_miss_raise [OF stale Inl]
      by (simp add: elapse_def)
  next
    case (Inr d3)
    show ?thesis
      unfolding e3 get_stock_data_miss_ok [OF stale Inr]
      by (simp add: elapse_def)
  qed
  have repl: "\<forall>d3. history yf3 ticker period interval = Inr d3 \<longrightarrow>
            fst r3 = Inr d3
            \<and> cache (snd r3) ?k = Some d3
            \<and> cache_expiry (snd r3) ?k = Some (clock (snd r3) + cache_duration s0)"
  proof (intro allI impI)
    fix d3 assume ok: "history yf3 ticker period interval = Inr d3"
    show "fst r3 = Inr d3 \<and> cache (snd r3) ?k = Some d3
            \<and> cache_expiry (snd r3) ?k = Some (clock (snd r3) + cache_duration s0)"
      unfolding e3 get_stock_data_miss_ok [OF stale ok]
      by (simp add: elapse_def)
  qed
  show ?thesis
    using e1 e2 f3 repl by (simp add: elapse_def)
qed

theorem cache_correctness_witness:
  "fst (get_stock_data (steady_yf [(1, Fin 10)]) (init_agent 1000) ''TSM'' ''5d'' ''1h'')
     = Inr [(1, Fin 10)]
   \<and> fst (get_stock_data (steady_yf [(1, Fin 11)])
        (elapse 200
           (snd (get_stock_data (steady_yf [(1, Fin 10)]) (init_agent 1000)
                   ''TSM'' ''5d'' ''1h'')))
        ''TSM'' ''5d'' ''1h'')
     = Inr [(1, Fin 10)]
   \<and> fetches (snd (get_stock_data (steady_yf [(1, Fin 11)])
        (elapse 200
           (snd (get_stock_data (steady_yf [(1, Fin 10)]) (init_agent 1000)
                   ''TSM'' ''5d'' ''1h'')))
        ''TSM'' ''5d'' ''1h''))
     = [(''TSM'', ''5d'', ''1h'')]
   \<and> fst (get_stock_data (steady_yf [(1, Fin 12)])
        (elapse 100
          (snd (get_stock_data (steady_yf [(1, Fin 11)])
            (elapse 200
               (snd (get_stock_data (steady_yf [(1, Fin 10)]) (init_agent 1000)
                       ''TSM'' ''5d'' ''1h'')))
            ''TSM'' ''5d'' ''1h'')))
        ''TSM'' ''5d'' ''1h'')
     = Inr [(1, Fin 12)]
   \<and> fetches (snd (get_stock_data (steady_yf [(1, Fin 12)])
        (elapse 100
          (snd (get_stock_data (steady_yf [(1, Fin 11)])
            (elapse 200
               (snd (get_stock_data (steady_yf [(1, Fin 10)]) (init_agent 1000)
                       ''TSM'' ''5d'' ''1h'')))
            ''TSM'' ''5d'' ''1h'')))
        ''TSM'' ''5d'' ''1h''))
     = [(''TSM'', ''5d'', ''1h''), (''TSM'', ''5d'', ''1h'')]"
proof -
  have miss: "\<not> (cache (init_agent 1000) (cache_key_of ''TSM'' ''5d'' ''1h'') \<noteq> None
          \<and> expiry_get (init_agent 1000) (cache_key_of ''TSM'' ''5d'' ''1h'')
              > clock (init_agent 1000))"
    by (simp add: init_agent_def)
  have ok: "history (steady_yf [(1, Fin 10)]) ''TSM'' ''5d'' ''1h'' = Inr [(1, Fin 10)]"
    by (simp add: steady_yf_def)
  have within: "(200::real) < cache_duration (init_agent 1000)"
    by (simp add: init_agent_def)
  have after: "cache_duration (init_agent 1000) \<le> (200::real) + 100"
    by (simp add: init_agent_def)
  have ok3: "history (steady_yf [(1, Fin 12)]) ''TSM'' ''5d'' ''1h'' = Inr [(1, Fin 12)]"
    by (simp add: steady_yf_def)
  have nil: "fetches (init_agent 1000) = []"
    by (simp add: init_agent_def)
  from cache_correctness [OF miss ok refl within refl after refl,
      of "steady_yf [(1, Fin 11)]" "steady_yf [(1, Fin 12)]"] ok3 nil
  show ?thesis by simp
qed

text \<open>
  The claim as worded has no condition on the provider. After a first fetch that
  raised nothing is stored, so a second call for the same key ten seconds later, well
  within \<open>cache_duration\<close>, goes upstream again: two requests, not one.
\<close>

theorem cache_refetch_after_failure_counterexample:
  "(10::real) < cache_duration (init_agent 1000)
   \<and> fst (get_stock_data failing_yf (init_agent 1000) ''TSM'' ''5d'' ''1h'')
       = Inl (ProviderError ''rate limited'')
   \<and> fetches (snd (get_stock_data failing_yf
        (elapse 10 (snd (get_stock_data failing_yf (init_agent 1000) ''TSM'' ''5d'' ''1h'')))
        ''TSM'' ''5d'' ''1h''))
     = [(''TSM'', ''5d'', ''1h''), (''TSM'', ''5d'', ''1h'')]"
  by (simp add: get_stock_data_def failing_yf_def init_agent_def expiry_get_def
      cache_key_of_def elapse_def)

section \<open>Properties of the keyword intent classifier\<close>

lemma contains_Nil [simp]: "contains s []"
  by (induction s) auto

lemma count_from_zero: "\<not> contains s sub \<Longrightarrow> count_from k s sub = 0"
  by (induction k s sub rule: count_from.induct) auto

lemma count_from_pos: "contains s sub \<Longrightarrow> sub \<noteq> [] \<Longrightarrow> 0 < count_from 0 s sub"
  by (induction s) auto

lemma contains_iff_count: "contains s sub \<longleftrightarrow> 0 < str_count s sub"
proof (cases "sub = []")
  case True
  then show ?thesis by (simp add: str_count_def)
next
  case False
  show ?thesis
  proof (cases "contains s sub")
    case True
    then show ?thesis using False count_from_pos by (simp add: str_count_def)
  next
    case no: False
    then show ?thesis using False count_from_zero by (simp add: str_count_def)
  qed
qed

lemma primary_intent_loop_char:
  "primary_intent_loop tbl q (p0, m0) = (p, m) \<Longrightarrow>
     (p = p0 \<and> m = m0 \<and> (\<forall>(k, i) \<in> set tbl. str_count q k \<le> m0)) \<or>
     (\<exists>pre k i post. tbl = pre @ (k, i) # post \<and> p = i \<and> m = str_count q k \<and> m0 < m
        \<and> (\<forall>(k', i') \<in> set pre. str_count q k' < m)
        \<and> (\<forall>(k', i') \<in> set post. str_count q k' \<le> m))"
proof (induction tbl arbitrary: p0 m0)
  case Nil
  then show ?case by simp
next
  case (Cons a tbl)
  obtain k1 i1 where a: "a = (k1, i1)" by (cases a)
  let ?c = "str_count q k1"
  show ?case
  proof (cases "contains q k1 \<and> ?c > m0")
    case True
    then have run: "primary_intent_loop tbl q (i1, ?c) = (p, m)"
      using Cons.prems by (simp add: a Let_def)
    from Cons.IH [OF run] show ?thesis
    proof
      assume "p = i1 \<and> m = ?c \<and> (\<forall>(k, i) \<in> set tbl. str_count q k \<le> ?c)"
      then have "a # tbl = [] @ (k1, i1) # tbl \<and> p = i1 \<and> m = str_count q k1 \<and> m0 < m
        \<and> (\<forall>(k', i') \<in> set []. str_count q k' < m)
        \<and> (\<forall>(k', i') \<in> set tbl. str_count q k' \<le> m)"
        using True a by simp
      then show ?thesis by blast
    next
      assume "\<exists>pre k i post. tbl = pre @ (k, i) # post \<and> p = i \<and> m = str_count q k \<and> ?c < m
        \<and> (\<forall>(k', i') \<in> set pre. str_count q k' < m)
        \<and> (\<forall>(k', i') \<in> set post. str_count q k' \<le> m)"
      then obtain pre k i post where h: "tbl = pre @ (k, i) # post" "p = i"
         "m = str_count q k" "?c < m" "\<forall>(k', i') \<in> set pre. str_count q k' < m"
         "\<forall>(k', i') \<in> set post. str_count q k' \<le> m"
        by blast
      have "a # tbl = (a # pre) @ (k, i) # post \<and> p = i \<and> m = str_count q k \<and> m0 < m
        \<and> (\<forall>(k', i') \<in> set (a # pre). str_count q k' < m)
        \<and> (\<forall>(k', i') \<in> set post. str_count q k' \<le> m)"
        using h True a by auto
      then show ?thesis by blast
    qed
  next
    case False
    then have le: "?c \<le> m0"
      using contains_iff_count [of q k1] by auto
    from False have run: "primary_intent_loop tbl q (p0, m0) = (p, m)"
      using Cons.prems by (auto simp add: a Let_def split: if_splits)
    from Cons.IH [OF run] show ?thesis
    proof
      assume "p = p0 \<and> m = m0 \<and> (\<forall>(k, i) \<in> set tbl. str_count q k \<le> m0)"
      then show ?thesis using le a by simp
    next
      assume "\<exists>pre k i post. tbl = pre @ (k, i) # post \<and> p = i \<and> m = str_count q k \<and> m0 < m
        \<and> (\<forall>(k', i') \<in> set pre. str_count q k' < m)
        \<and> (\<forall>(k', i') \<in> set post. str_count q k' \<le> m)"
      then obtain pre k i post where h: "tbl = pre @ (k, i) # post" "p = i"
         "m = str_count q k" "m0 < m" "\<forall>(k', i') \<in> set pre. str_count q k' < m"
         "\<forall>(k', i') \<in> set post. str_count q k' \<le> m"
        by blast
      have "a # tbl = (a # pre) @ (k, i) # post \<and> p = i \<and> m = str_count q k \<and> m0 < m
        \<and> (\<forall>(k', i') \<in> set (a # pre). str_count q k' < m)
        \<and> (\<forall>(k', i') \<in> set post. str_count q k' \<le> m)"
        using h le a by auto
      then show ?thesis by blast
    qed
  qed
qed

text \<open>
  C9 (as the code has it). The classifier scores single keywords, not intents: it
  returns the intent of the registered keyword with the highest non-overlapping
  occurrence count in the lower-cased query, the earliest-registered such keyword
  winning a tie (every keyword before it in the table has a strictly smaller count,
  every keyword after it a count that is not larger), and \<open>unknown\<close> when no
  registered keyword occurs in the query.
\<close>

theorem analyze_query_intent_first_max_keyword:
  "(if \<forall>(k, i) \<in> set intents. \<not> contains (lower query) k
    then analyze_query_intent query = ''unknown''
    else \<exists>pre k i post. intents = pre @ (k, i) # post
           \<and> analyze_query_intent query = i
           \<and> contains (lower query) k
           \<and> (\<forall>(k', i') \<in> set pre. str_count (lower query) k' < str_count (lower query) k)
           \<and> (\<forall>(k', i') \<in> set post. str_count (lower query) k' \<le> str_count (lower query) k))"
proof -
  let ?q = "lower query"
  obtain p m where run: "primary_intent_loop intents ?q (''unknown'', 0) = (p, m)"
    by (cases "primary_intent_loop intents ?q (''unknown'', 0)")
  have res: "analyze_query_intent query = p"
    by (simp add: analyze_query_intent_def run)
  from primary_intent_loop_char [OF run] show ?thesis
  proof
    assume h: "p = ''unknown'' \<and> m = 0 \<and> (\<forall>(k, i) \<in> set intents. str_count ?q k \<le> 0)"
    then have "\<forall>(k, i) \<in> set intents. \<not> contains ?q k"
      using contains_iff_count by fastforce
    then show ?thesis using h res by simp
  next
    assume "\<exists>pre k i post. intents = pre @ (k, i) # post \<and> p = i \<and> m = str_count ?q k \<and> 0 < m
        \<and> (\<forall>(k', i') \<in> set pre. str_count ?q k' < m)
        \<and> (\<forall>(k', i') \<in> set post. str_count ?q k' \<le> m)"
    then obtain pre k i post where h: "intents = pre @ (k, i) # post" "p = i"
         "m = str_count ?q k" "0 < m" "\<forall>(k', i') \<in> set pre. str_count ?q k' < m"
         "\<forall>(k', i') \<in> set post. str_count ?q k' \<le> m"
      by blast
    have c: "contains ?q k" using h(3,4) contains_iff_count by simp
    have "(k, i) \<in> set intents" unfolding h(1) by simp
    then have ne: "\<not> (\<forall>(k, i) \<in> set intents. \<not> contains ?q k)"
      using c by blast
    have "intents = pre @ (k, i) # post
           \<and> analyze_query_intent query = i
           \<and> contains ?q k
           \<and> (\<forall>(k', i') \<in> set pre. str_count ?q k' < str_count ?q k)
           \<and> (\<forall>(k', i') \<in> set post. str_count ?q k' \<le> str_count ?q k)"
      using h c res by simp
    then have "\<exists>pre k i post. intents = pre @ (k, i) # post
           \<and> analyze_query_intent query = i
           \<and> contains ?q k
           \<and> (\<forall>(k', i') \<in> set pre. str_count ?q k' < str_count ?q k)
           \<and> (\<forall>(k', i') \<in> set post. str_count ?q k' \<le> str_count ?q k)"
      by blast
    then show ?thesis by (simp only: ne if_False)
  qed
qed

theorem analyze_query_intent_first_max_keyword_witness:
  "analyze_query_intent ''Hello there'' = ''unknown''
   \<and> analyze_query_intent ''risk risk stock price earnings'' \<in> snd ` set intents"
proof -
  have none: "\<forall>(k, i) \<in> set intents. \<not> contains (lower ''Hello there'') k"
    by code_simp
  have some: "\<not> (\<forall>(k, i) \<in> set intents.
      \<not> contains (lower ''risk risk stock price earnings'') k)"
    by code_simp
  have a: "analyze_query_intent ''Hello there'' = ''unknown''"
    using analyze_query_intent_first_max_keyword [of "''Hello there''"] none by simp
  have "\<exists>pre k i post. intents = pre @ (k, i) # post
           \<and> analyze_query_intent ''risk risk stock price earnings'' = i"
    using analyze_query_intent_first_max_keyword [of "''risk risk stock price earnings''"] some
    by (simp only: if_False) blast
  then obtain pre k i post where d: "intents = pre @ (k, i) # post"
    and r: "analyze_query_intent ''risk risk stock price earnings'' = i" by blast
  have "i \<in> snd ` set intents" unfolding d by force
  then have "analyze_query_intent ''risk risk stock price earnings'' \<in> snd ` set intents"
    using r by simp
  with a show ?thesis by simp
qed

text \<open>
  Read as a score per intent, the claim fails: in this query the keywords of
  \<open>stock_specific\<close> occur three times and those of \<open>risk_assessment\<close> twice, and
  the classifier answers \<open>risk_assessment\<close>, because \<open>risk\<close> alone occurs twice.
\<close>

theorem analyze_query_intent_aggregate_counterexample:
  "analyze_query_intent ''risk risk stock price earnings'' = ''risk_assessment''
   \<and> intent_score ''risk_assessment'' (lower ''risk risk stock price earnings'') = 2
   \<and> intent_score ''stock_specific'' (lower ''risk risk stock price earnings'') = 3"
  by code_simp

section \<open>Properties of the router\<close>

text \<open>
  Nothing in \<open>route_query\<close> catches: an exception of the retriever or of the selected
  handler is the result of \<open>route_query\<close>.
\<close>

lemma route_query_retriever_raises:
  "retrieve ag query = Inl e \<Longrightarrow> route_query ag query intent = Inl e"
  by (simp add: route_query_def Let_def)

lemma route_query_risk_branch:
  assumes "intent ''primary_intent'' = Some (PStr ''risk_assessment'')"
    and "retrieve ag query = Inr context"
  shows "route_query ag query intent =
           handle_risk_assessment ag query
             (case intent ''entities'' of None \<Rightarrow> PList [] | Some v \<Rightarrow> v) context"
  using assms by (simp add: route_query_def Let_def)

lemma handle_risk_assessment_not_iterable:
  "py_iter entities = Inl e \<Longrightarrow> handle_risk_assessment ag query entities context = Inl e"
  by (simp add: handle_risk_assessment_def)

text \<open>
  The earlier definition of \<open>route_query\<close> in the same file does what the claim says:
  whatever its handlers do, it returns a response, and a handler's exception is
  turned into the fallback response that records the error.
\<close>

lemma route_query_try_returns:
  "\<exists>r. route_query_try ag hs query intent = Inr r"
  by (simp add: route_query_try_def Let_def split: sum.splits)

lemma route_query_try_records_error:
  assumes "intent ''primary_intent'' = Some (PStr ''risk_assessment'')"
    and "old_risk_assessment hs query
           (case intent ''entities'' of None \<Rightarrow> PList [] | Some v \<Rightarrow> v) = Inl e"
  shows "route_query_try ag hs query intent =
           Inr (Fallback (generate_response ag query []) ''language_agent'' (str_of_exn e))"
  using assms by (simp add: route_query_try_def Let_def)

text \<open>
  C1. The claim asks that \<open>route_query\<close> never propagates an exception. On an intent
  whose \<open>entities\<close> value is JSON \<open>null\<close>, with a retriever and agents that all
  answer, the risk handler raises at its loop over the entities and \<open>route_query\<close>
  passes the exception to its caller.
\<close>

theorem route_query_propagates_handler_exception:
  "route_query quiet_agents ''What is our risk exposure in Asia tech?''
     [''primary_intent'' \<mapsto> PStr ''risk_assessment'', ''entities'' \<mapsto> PNone]
   = Inl (TypeError ([CHR 0x27] @ ''NoneType'' @ [CHR 0x27] @ '' object is not iterable''))"
  by (simp add: route_query_def handle_risk_assessment_def py_iter_def quiet_agents_def
      quote_def)

section \<open>Properties of the drawdown\<close>

lemma length_cummax_from [simp]: "length (cummax_from m ps) = length ps"
  by (induction ps arbitrary: m) (auto simp: Let_def)

lemma fle_trans: "fle x y \<Longrightarrow> fle y z \<Longrightarrow> fle x z"
  by (cases x; cases y; cases z) auto

lemma fle_refl: "\<not> is_nan x \<Longrightarrow> fle x x"
  by (cases x) auto

lemma fle_not_nan: "fle x y \<Longrightarrow> \<not> is_nan x \<and> \<not> is_nan y"
  by (cases x; cases y) auto

lemma fmin_le: "\<not> is_nan m \<Longrightarrow> \<not> is_nan x \<Longrightarrow> fle (fmin m x) m \<and> fle (fmin m x) x \<and> \<not> is_nan (fmin m x)"
  by (cases m; cases x) (auto simp: fmin_def)

lemma nanmin_from_le:
  "\<not> is_nan y \<Longrightarrow> y \<in> set (m # xs) \<Longrightarrow> fle (nanmin_from m xs) y"
proof (induction xs arbitrary: m y)
  case Nil
  then show ?case by (simp add: fle_refl)
next
  case (Cons x xs)
  show ?case
  proof (cases "is_nan x")
    case True
    then have "y \<in> set (m # xs)" using Cons.prems by auto
    then show ?thesis using Cons.IH [OF Cons.prems(1)] True by simp
  next
    case nx: False
    show ?thesis
    proof (cases "is_nan m")
      case True
      then have "y \<in> set (x # xs)" using Cons.prems by auto
      then show ?thesis using Cons.IH [OF Cons.prems(1)] True nx by simp
    next
      case nm: False
      have r: "nanmin_from m (x # xs) = nanmin_from (fmin m x) xs"
        using nx nm by simp
      have f: "fle (fmin m x) m" "fle (fmin m x) x" "\<not> is_nan (fmin m x)"
        using fmin_le [OF nm nx] by auto
      have base: "fle (nanmin_from (fmin m x) xs) (fmin m x)"
        using Cons.IH [OF f(3), of "fmin m x"] by simp
      from Cons.prems(2) consider "y = m" | "y = x" | "y \<in> set xs" by auto
      then show ?thesis
      proof cases
        case 1
        then show ?thesis using r base f(1) fle_trans by metis
      next
        case 2
        then show ?thesis using r base f(2) fle_trans by metis
      next
        case 3
        then show ?thesis using r Cons.IH [OF Cons.prems(1), of "fmin m x"] by simp
      qed
    qed
  qed
qed

lemma nanmin_from_all_nan:
  "is_nan m \<Longrightarrow> list_all is_nan xs \<Longrightarrow> is_nan (nanmin_from m xs)"
  by (induction xs arbitrary: m) auto

lemma fle_Fin [simp]: "fle (Fin a) (Fin b) = (a \<le> b)"
  by auto

lemma dd_fin:
  assumes "0 < c" and "b \<le> c"
  shows "fle (dd_val (Fin b) (Fin c)) (Fin 0)"
proof -
  have "b / c \<le> 1" using assms by (simp add: divide_le_eq_1)
  then have "b / c - 1 \<le> 0" by simp
  then have "(b / c - 1) * 100 \<le> 0" by (rule mult_nonpos_nonneg) simp
  then show ?thesis using assms by (auto simp add: dd_val_def fsub_def)
qed

lemma dd_self: "a \<noteq> 0 \<Longrightarrow> dd_val (Fin a) (Fin a) = Fin 0"
  by (simp add: dd_val_def fsub_def)

lemma dd_step:
  assumes "good_max m" and "\<not> is_nan x"
  shows "fle (dd_val x (case m of None \<Rightarrow> x | Some y \<Rightarrow> fmax y x)) (Fin 0)
       \<or> (is_nan (dd_val x (case m of None \<Rightarrow> x | Some y \<Rightarrow> fmax y x))
          \<and> good_max (Some (case m of None \<Rightarrow> x | Some y \<Rightarrow> fmax y x)))"
proof (cases m)
  case None
  then show ?thesis using assms
    by (cases x) (auto simp: dd_val_def fsub_def inf_of_sign_def)
next
  case (Some y)
  show ?thesis
  proof (cases "is_fin x \<and> is_fin y \<and> real_of_fin y \<noteq> 0")
    case True
    then obtain a b where xy: "x = Fin a" "y = Fin b" "b \<noteq> 0"
      by (cases x; cases y) auto
    then have pos: "0 < b" using assms Some by simp
    have "fmax y x = Fin (max a b)" using xy by (auto simp: fmax_def)
    moreover have "fle (dd_val (Fin a) (Fin (max a b))) (Fin 0)"
      using dd_fin [of "max a b" a] pos by simp
    ultimately show ?thesis using Some xy by simp
  next
    case False
    then show ?thesis using assms Some
      by (cases x; cases y)
         (auto simp: dd_val_def fsub_def inf_of_sign_def fmax_def split: if_splits)
  qed
qed

lemma dd_vals_nonpos_exists:
  "good_max m \<Longrightarrow> \<not> list_all is_nan (dd_vals m ps) \<Longrightarrow> list_ex (\<lambda>d. fle d (Fin 0)) (dd_vals m ps)"
proof (induction ps arbitrary: m)
  case Nil
  then show ?case by (simp add: dd_vals_def)
next
  case (Cons x ps)
  show ?case
  proof (cases "is_nan x")
    case True
    have eq: "dd_vals m (x # ps) = dd_val x NaN # dd_vals m ps"
      using True by (simp add: dd_vals_def)
    have "is_nan (dd_val x NaN)" using True by (cases x) (auto simp: dd_val_def fsub_def)
    then show ?thesis using Cons eq by simp
  next
    case False
    let ?m' = "case m of None \<Rightarrow> x | Some y \<Rightarrow> fmax y x"
    have eq: "dd_vals m (x # ps) = dd_val x ?m' # dd_vals (Some ?m') ps"
      using False by (simp add: dd_vals_def Let_def)
    from dd_step [OF Cons.prems(1) False] show ?thesis
    proof
      assume "fle (dd_val x ?m') (Fin 0)"
      then show ?thesis by (simp add: eq)
    next
      assume h: "is_nan (dd_val x ?m') \<and> good_max (Some ?m')"
      then have "\<not> list_all is_nan (dd_vals (Some ?m') ps)"
        using Cons.prems(2) eq by simp
      then show ?thesis using Cons.IH h eq by simp
    qed
  qed
qed


lemma drawdown_series_vals:
  "map snd (map (\<lambda>((l, p), (l', c)). (l, fmul (fsub (fdiv p c) (Fin 1)) (Fin 100)))
              (zip ps (zip (map fst ps) (cummax_from m (map snd ps)))))
   = dd_vals m (map snd ps)"
proof (induction ps arbitrary: m)
  case Nil
  then show ?case by (simp add: dd_vals_def)
next
  case (Cons a ps)
  obtain l p where a: "a = (l, p)" by (cases a)
  show ?case
  proof (cases "is_nan p")
    case True
    then show ?thesis using Cons.IH [of m] by (simp add: a dd_vals_def dd_val_def)
  next
    case False
    then show ?thesis
      using Cons.IH [of "Some (case m of None \<Rightarrow> p | Some y \<Rightarrow> fmax y p)"]
      by (simp add: a dd_vals_def dd_val_def Let_def)
  qed
qed

lemma drawdown_min_nonpositive:
  assumes "\<not> is_nan (series_min (drawdown_series prices))"
  shows "fle (series_min (drawdown_series prices)) (Fin 0)"
proof -
  let ?ds = "dd_vals None (map snd prices)"
  have vals: "map snd (drawdown_series prices) = ?ds"
    unfolding drawdown_series_def cummax_def by (rule drawdown_series_vals)
  have m: "series_min (drawdown_series prices) = nanmin_from NaN ?ds"
    by (simp add: series_min_def vals)
  have "\<not> list_all is_nan ?ds"
    using assms nanmin_from_all_nan [of NaN ?ds] unfolding m by auto
  then have "list_ex (\<lambda>d. fle d (Fin 0)) ?ds"
    using dd_vals_nonpos_exists [of None] by simp
  then obtain d where d: "d \<in> set ?ds" "fle d (Fin 0)"
    by (auto simp: list_ex_iff)
  have "\<not> is_nan d" using d(2) fle_not_nan by blast
  then have "fle (nanmin_from NaN ?ds) d"
    using nanmin_from_le [of d NaN ?ds] d(1) by simp
  then show ?thesis unfolding m using d(2) fle_trans by blast
qed

lemma idxmin_ok_not_nan: "idxmin xs = Inr l \<Longrightarrow> \<not> is_nan (series_min xs)"
  by (auto simp: idxmin_def Let_def split: if_splits)

text \<open>
  C5. For every price series, whatever its index and including \<open>NaN\<close> and infinite
  entries, the \<open>max_drawdown\<close> that \<open>calculate_drawdown\<close> returns is at most 0: it is
  either the failure default 0.0 or the minimum of the drawdown Series, and that
  minimum is never positive.
\<close>

theorem calculate_drawdown_nonpositive:
  "fle (max_drawdown (calculate_drawdown prices)) (Fin 0)"
proof (cases "idxmin (drawdown_series prices)")
  case (Inl e)
  then show ?thesis by (simp add: calculate_drawdown_def)
next
  case (Inr l)
  have le: "fle (series_min (drawdown_series prices)) (Fin 0)"
    using drawdown_min_nonpositive idxmin_ok_not_nan [OF Inr] by blast
  show ?thesis
  proof (cases l)
    case (Ts t)
    then show ?thesis using Inr by (simp add: calculate_drawdown_def)
  next
    case (Ix k)
    then show ?thesis using Inr le
      by (cases "idxmax (iloc_upto k prices)") (simp_all add: calculate_drawdown_def)
  qed
qed

lemma calculate_drawdown_examples:
  "calculate_drawdown [(Ix 0, Fin 100), (Ix 1, Fin 80), (Ix 2, Fin 120)]
     = \<lparr>max_drawdown = Fin (- 20), duration = 0\<rparr>"
  "calculate_drawdown [(Ts 0, Fin 100), (Ts 1, Fin 80), (Ts 2, Fin 120)]
     = \<lparr>max_drawdown = Fin 0, duration = 0\<rparr>"
  "calculate_drawdown [(Ix 0, Fin 100), (Ix 1, Fin 110)]
     = \<lparr>max_drawdown = Fin 0, duration = 0\<rparr>"
  by (simp_all add: calculate_drawdown_def drawdown_series_def cummax_def series_min_def
      idxmin_def idxmax_def iloc_upto_def fmax_def fmin_def fsub_def Let_def)

section \<open>Properties of analyze_risk_exposure\<close>

text \<open>
  What every report of \<open>analyze_risk_exposure\<close> satisfies: the risk level is the one of
  the stored average volatility, and the earnings surprises and the sentiment are those
  of one call of \<open>get_asia_tech_exposure\<close>.
\<close>

lemma analyze_risk_exposure_shape:
  assumes "fst (analyze_risk_exposure yf fns s region sector) = Inr r"
  shows "\<exists>s' a s''. get_asia_tech_exposure yf s' = (a, s'')
           \<and> risk_level r = risk_level_of (average_volatility r)
           \<and> earnings_surprises r = asia_earnings_surprises a
           \<and> sentiment r = (if region = ''Asia'' then Some (asia_sentiment a) else None)"
proof (cases "map_of region_mapping region")
  case None
  then show ?thesis using assms by (simp add: analyze_risk_exposure_def)
next
  case (Some sectors)
  let ?given = "given sector"
  let ?tickers = "if ?given then the (map_of sectors (the sector)) else concat (map snd sectors)"
  have ok: "\<not> (?given \<and> map_of sectors (the sector) = None)"
    using assms Some by (auto simp add: analyze_risk_exposure_def split: if_splits)
  obtain stock_data s1 where f: "exposure_fetch_loop yf ?tickers [] s = (stock_data, s1)"
    by (cases "exposure_fetch_loop yf ?tickers [] s")
  obtain m s2 where g: "get_stock_data yf s1 ''^GSPC'' ''1mo'' ''1d'' = (m, s2)"
    by (cases "get_stock_data yf s1 ''^GSPC'' ''1mo'' ''1d''")
  obtain a s3 where h: "get_asia_tech_exposure yf s2 = (a, s3)"
    by (cases "get_asia_tech_exposure yf s2")
  show ?thesis
  proof (cases m)
    case (Inl e)
    then show ?thesis using assms Some f g
      by (simp add: analyze_risk_exposure_def Let_def if_not_P [OF ok])
  next
    case (Inr market_data)
    obtain metrics vols betas vars where
      l: "exposure_metrics_loop fns market_data stock_data ([], [], [], [])
            = (metrics, vols, betas, vars)"
      by (cases "exposure_metrics_loop fns market_data stock_data ([], [], [], [])") auto
    have r: "r = \<lparr>report_region = region, report_sector = sector, report_tickers = ?tickers,
                 report_metrics = metrics, average_volatility = mean_or_0 vols,
                 average_beta = mean_or_0 betas, average_var_95 = mean_or_0 vars,
                 risk_level = risk_level_of (mean_or_0 vols),
                 earnings_surprises = asia_earnings_surprises a,
                 sentiment = (if region = ''Asia'' then Some (asia_sentiment a) else None)\<rparr>"
      using assms Some f g h Inr l
      by (simp add: analyze_risk_exposure_def Let_def if_not_P [OF ok])
    have "get_asia_tech_exposure yf s2 = (a, s3)
           \<and> risk_level r = risk_level_of (average_volatility r)
           \<and> earnings_surprises r = asia_earnings_surprises a
           \<and> sentiment r = (if region = ''Asia'' then Some (asia_sentiment a) else None)"
      using h by (simp add: r)
    then show ?thesis by blast
  qed
qed

text \<open>The two concrete runs, evaluated.\<close>

lemma europe_finance_run:
  "fst (analyze_risk_exposure (steady_yf []) const_fns (init_agent 0) ''Europe''
          (Some ''Finance''))
    = Inr europe_finance_report"
  by (simp add: analyze_risk_exposure_def region_mapping_def steady_yf_def const_fns_def
    init_agent_def get_stock_data_def cache_key_of_def expiry_get_def Let_def given_def
    get_asia_tech_exposure_def asia_tech_stocks_def mean_or_0_def risk_level_of_def fgt_def
    sentiment_of_def europe_finance_report_def)

lemma america_finance_run:
  "fst (analyze_risk_exposure earnings_yf const_fns (init_agent 0) ''North America''
          (Some ''Finance''))
    = Inr america_finance_report"
  by (simp add: analyze_risk_exposure_def region_mapping_def earnings_yf_def const_fns_def
    init_agent_def get_stock_data_def cache_key_of_def expiry_get_def Let_def given_def
    get_asia_tech_exposure_def asia_tech_stocks_def mean_or_0_def risk_level_of_def fgt_def
    sentiment_of_def america_finance_report_def estimate_or_0_def surprise_percent_def
    fsub_def company_name_def round_half_even_def)




text \<open>
  C6. The risk level of a report is determined by its average volatility through the
  thresholds 30, 20, 15 and 10, each compared with \<open>>\<close>; the averages 35, 25, 17, 12
  and 5 give the five labels in this order.
\<close>

theorem risk_level_thresholds:
  "(fst (analyze_risk_exposure yf fns s region sector) = Inr r
      \<longrightarrow> risk_level r = risk_level_of (average_volatility r))
   \<and> risk_level_of (Fin a) =
       (if a > 30 then ''Very High'' else if a > 20 then ''High''
        else if a > 15 then ''Moderate to High'' else if a > 10 then ''Moderate''
        else ''Low'')
   \<and> risk_level_of (Fin 35) = ''Very High''
   \<and> risk_level_of (Fin 25) = ''High''
   \<and> risk_level_of (Fin 17) = ''Moderate to High''
   \<and> risk_level_of (Fin 12) = ''Moderate''
   \<and> risk_level_of (Fin 5) = ''Low''"
  using analyze_risk_exposure_shape [of yf fns s region sector r]
  by (auto simp add: risk_level_of_def fgt_def)

theorem risk_level_thresholds_witness:
  "fst (analyze_risk_exposure (steady_yf []) const_fns (init_agent 0) ''Europe''
          (Some ''Finance'')) = Inr europe_finance_report
   \<and> risk_level europe_finance_report
       = risk_level_of (average_volatility europe_finance_report)
   \<and> risk_level_of (average_volatility europe_finance_report) = ''Low''
   \<and> risk_level_of (Fin 35) = ''Very High''"
proof -
  note t = risk_level_thresholds [of "steady_yf []" const_fns "init_agent 0" "''Europe''"
          "Some ''Finance''" europe_finance_report 0]
  have a: "risk_level europe_finance_report
             = risk_level_of (average_volatility europe_finance_report)"
    by (rule t [THEN conjunct1, rule_format, OF europe_finance_run])
  have b: "risk_level_of (average_volatility europe_finance_report) = ''Low''"
    unfolding a [symmetric] by (simp add: europe_finance_report_def)
  have c: "risk_level_of (Fin 35) = ''Very High''"
    by (rule t [THEN conjunct2, THEN conjunct2, THEN conjunct1])
  show ?thesis by (intro conjI europe_finance_run a b c)
qed

text \<open>Where the entries of the earnings surprises come from.\<close>

lemma dict_set_mem:
  "(k, v) \<in> set (dict_set d k' v') \<Longrightarrow> (k, v) = (k', v') \<or> (k, v) \<in> set d"
  by (induction d) (auto split: if_splits)

lemma significant_loop_mem:
  "(name, v) \<in> set (significant_loop es acc) \<Longrightarrow>
     (name, v) \<in> set acc \<or>
     (\<exists>ticker surprise estimate. (ticker, surprise, estimate) \<in> set es
        \<and> name = company_name ticker
        \<and> fgt estimate (Fin 0)
        \<and> fgt (fabs (surprise_percent surprise estimate)) (Fin 1)
        \<and> v = fround2 (surprise_percent surprise estimate))"
proof (induction es arbitrary: acc)
  case Nil
  then show ?case by simp
next
  case (Cons e es)
  obtain ticker surprise estimate where e: "e = (ticker, surprise, estimate)"
    by (cases e)
  show ?case
  proof (cases "fgt estimate (Fin 0) \<and> fgt (fabs (surprise_percent surprise estimate)) (Fin 1)")
    case True
    then have "(name, v) \<in> set (significant_loop es
        (dict_set acc (company_name ticker) (fround2 (surprise_percent surprise estimate))))"
      using Cons.prems e by simp
    from Cons.IH [OF this] show ?thesis
    proof
      assume "(name, v) \<in> set (dict_set acc (company_name ticker)
                 (fround2 (surprise_percent surprise estimate)))"
      then have "(name, v) = (company_name ticker, fround2 (surprise_percent surprise estimate))
                 \<or> (name, v) \<in> set acc"
        by (rule dict_set_mem)
      then show ?thesis using True e by auto
    next
      assume "\<exists>ticker surprise estimate. (ticker, surprise, estimate) \<in> set es
        \<and> name = company_name ticker
        \<and> fgt estimate (Fin 0)
        \<and> fgt (fabs (surprise_percent surprise estimate)) (Fin 1)
        \<and> v = fround2 (surprise_percent surprise estimate)"
      then show ?thesis by auto
    qed
  next
    case False
    then have "(name, v) \<in> set (significant_loop es acc)"
      using Cons.prems e by (auto split: if_splits)
    from Cons.IH [OF this] show ?thesis by auto
  qed
qed

lemma asia_tech_loop_earnings:
  "asia_tech_loop yf tickers stock_data es s = (stock_data', es', s') \<Longrightarrow>
   (t, earning, est) \<in> set es' \<Longrightarrow>
     (t, earning, est) \<in> set es \<or>
     (t \<in> set tickers \<and> calendar_ok yf t = Inr True
        \<and> (\<exists>estimate. earnings yf t = Inr (Some (earning, estimate))
              \<and> est = estimate_or_0 estimate))"
proof (induction tickers arbitrary: stock_data es s)
  case Nil
  then show ?case by simp
next
  case (Cons ticker rest)
  obtain res s1 where g: "get_stock_data yf s ticker ''5d'' ''1h'' = (res, s1)"
    by (cases "get_stock_data yf s ticker ''5d'' ''1h''")
  show ?case
  proof (cases "\<exists>data earning0 estimate0. res = Inr data \<and> calendar_ok yf ticker = Inr True
                  \<and> earnings yf ticker = Inr (Some (earning0, estimate0))")
    case True
    then obtain data earning0 estimate0 where h: "res = Inr data"
      "calendar_ok yf ticker = Inr True"
      "earnings yf ticker = Inr (Some (earning0, estimate0))" by blast
    let ?sd = "if data \<noteq> [] then dict_set stock_data ticker (price_entry data) else stock_data"
    have run: "asia_tech_loop yf rest ?sd
                 (dict_set es ticker (earning0, estimate_or_0 estimate0)) s1
               = (stock_data', es', s')"
      using Cons.prems(1) g h by (simp add: Let_def)
    from Cons.IH [OF run Cons.prems(2)] show ?thesis
    proof
      assume "(t, earning, est) \<in> set (dict_set es ticker (earning0, estimate_or_0 estimate0))"
      then have "(t, earning, est) = (ticker, earning0, estimate_or_0 estimate0)
                 \<or> (t, earning, est) \<in> set es"
        by (rule dict_set_mem)
      then show ?thesis using h by auto
    next
      assume "t \<in> set rest \<and> calendar_ok yf t = Inr True
        \<and> (\<exists>estimate. earnings yf t = Inr (Some (earning, estimate))
              \<and> est = estimate_or_0 estimate)"
      then show ?thesis by auto
    qed
  next
    case False
    then have "\<exists>sd. asia_tech_loop yf rest sd es s1 = (stock_data', es', s')"
      using Cons.prems(1) g
      by (auto simp add: Let_def split: sum.splits option.splits if_splits)
    then obtain sd where run: "asia_tech_loop yf rest sd es s1 = (stock_data', es', s')"
      by blast
    from Cons.IH [OF run Cons.prems(2)] show ?thesis by auto
  qed
qed

lemma get_asia_tech_exposure_surprises:
  "asia_earnings_surprises (fst (get_asia_tech_exposure yf s))
     = significant_loop (fst (snd (asia_tech_loop yf asia_tech_stocks [] [] s))) []"
  by (simp add: get_asia_tech_exposure_def Let_def split: prod.splits)

lemma asia_surprises_origin:
  assumes "(name, v) \<in> set (asia_earnings_surprises (fst (get_asia_tech_exposure yf s)))"
  shows "\<exists>ticker earning estimate. ticker \<in> set asia_tech_stocks
           \<and> name = company_name ticker
           \<and> calendar_ok yf ticker = Inr True
           \<and> earnings yf ticker = Inr (Some (earning, estimate))
           \<and> fgt (estimate_or_0 estimate) (Fin 0)
           \<and> fgt (fabs (surprise_percent earning (estimate_or_0 estimate))) (Fin 1)
           \<and> v = fround2 (surprise_percent earning (estimate_or_0 estimate))"
proof -
  obtain sd es s' where run: "asia_tech_loop yf asia_tech_stocks [] [] s = (sd, es, s')"
    by (cases "asia_tech_loop yf asia_tech_stocks [] [] s") auto
  have "(name, v) \<in> set (significant_loop es [])"
    using assms by (simp add: get_asia_tech_exposure_surprises run)
  then obtain ticker surprise est where m: "(ticker, surprise, est) \<in> set es"
    "name = company_name ticker" "fgt est (Fin 0)"
    "fgt (fabs (surprise_percent surprise est)) (Fin 1)"
    "v = fround2 (surprise_percent surprise est)"
    using significant_loop_mem [of name v es "[]"] by auto
  from asia_tech_loop_earnings [OF run m(1)]
  obtain estimate where "ticker \<in> set asia_tech_stocks" "calendar_ok yf ticker = Inr True"
    "earnings yf ticker = Inr (Some (surprise, estimate))" "est = estimate_or_0 estimate"
    by auto
  then show ?thesis using m by blast
qed

text \<open>
  C10. In every report of \<open>analyze_risk_exposure\<close>, for whatever region and sector, the
  earnings surprises are those that \<open>get_asia_tech_exposure\<close> returns, and the sentiment
  is the one it returns when the region is \<open>Asia\<close> and absent otherwise. Every entry
  belongs to a ticker of the fixed Asia technology list whose estimate is strictly
  positive and whose percentage surprise exceeds 1.0 in absolute value.
\<close>

theorem earnings_surprises_from_asia_tech:
  "fst (analyze_risk_exposure yf fns s region sector) = Inr r \<longrightarrow>
     (\<exists>s'. earnings_surprises r = asia_earnings_surprises (fst (get_asia_tech_exposure yf s'))
          \<and> sentiment r = (if region = ''Asia''
                            then Some (asia_sentiment (fst (get_asia_tech_exposure yf s')))
                            else None))
     \<and> (\<forall>name v. (name, v) \<in> set (earnings_surprises r) \<longrightarrow>
          (\<exists>ticker earning estimate. ticker \<in> set asia_tech_stocks
             \<and> name = company_name ticker
             \<and> earnings yf ticker = Inr (Some (earning, estimate))
             \<and> fgt (estimate_or_0 estimate) (Fin 0)
             \<and> fgt (fabs (surprise_percent earning (estimate_or_0 estimate))) (Fin 1)
             \<and> v = fround2 (surprise_percent earning (estimate_or_0 estimate))))"
proof
  assume ok: "fst (analyze_risk_exposure yf fns s region sector) = Inr r"
  from analyze_risk_exposure_shape [OF ok]
  obtain s' a s'' where h: "get_asia_tech_exposure yf s' = (a, s'')"
    "earnings_surprises r = asia_earnings_surprises a"
    "sentiment r = (if region = ''Asia'' then Some (asia_sentiment a) else None)"
    by blast
  have a: "a = fst (get_asia_tech_exposure yf s')" using h(1) by simp
  have first: "\<exists>s'. earnings_surprises r
                  = asia_earnings_surprises (fst (get_asia_tech_exposure yf s'))
          \<and> sentiment r = (if region = ''Asia''
                            then Some (asia_sentiment (fst (get_asia_tech_exposure yf s')))
                            else None)"
    using h(2,3) unfolding a by blast
  have second: "\<forall>name v. (name, v) \<in> set (earnings_surprises r) \<longrightarrow>
          (\<exists>ticker earning estimate. ticker \<in> set asia_tech_stocks
             \<and> name = company_name ticker
             \<and> earnings yf ticker = Inr (Some (earning, estimate))
             \<and> fgt (estimate_or_0 estimate) (Fin 0)
             \<and> fgt (fabs (surprise_percent earning (estimate_or_0 estimate))) (Fin 1)
             \<and> v = fround2 (surprise_percent earning (estimate_or_0 estimate)))"
  proof (intro allI impI)
    fix name v assume "(name, v) \<in> set (earnings_surprises r)"
    then have "(name, v) \<in> set (asia_earnings_surprises (fst (get_asia_tech_exposure yf s')))"
      using h(2) a by simp
    from asia_surprises_origin [OF this]
    show "\<exists>ticker earning estimate. ticker \<in> set asia_tech_stocks
             \<and> name = company_name ticker
             \<and> earnings yf ticker = Inr (Some (earning, estimate))
             \<and> fgt (estimate_or_0 estimate) (Fin 0)
             \<and> fgt (fabs (surprise_percent earning (estimate_or_0 estimate))) (Fin 1)
             \<and> v = fround2 (surprise_percent earning (estimate_or_0 estimate))"
      by blast
  qed
  from first second show "(\<exists>s'. earnings_surprises r
                  = asia_earnings_surprises (fst (get_asia_tech_exposure yf s'))
          \<and> sentiment r = (if region = ''Asia''
                            then Some (asia_sentiment (fst (get_asia_tech_exposure yf s')))
                            else None))
     \<and> (\<forall>name v. (name, v) \<in> set (earnings_surprises r) \<longrightarrow>
          (\<exists>ticker earning estimate. ticker \<in> set asia_tech_stocks
             \<and> name = company_name ticker
             \<and> earnings yf ticker = Inr (Some (earning, estimate))
             \<and> fgt (estimate_or_0 estimate) (Fin 0)
             \<and> fgt (fabs (surprise_percent earning (estimate_or_0 estimate))) (Fin 1)
             \<and> v = fround2 (surprise_percent earning (estimate_or_0 estimate))))"
    by blast
qed

theorem earnings_surprises_from_asia_tech_witness:
  "fst (analyze_risk_exposure earnings_yf const_fns (init_agent 0) ''North America''
          (Some ''Finance'')) = Inr america_finance_report
   \<and> earnings_surprises america_finance_report = [(''TSM'', Fin 10)]
   \<and> ''TSM'' \<notin> set (report_tickers america_finance_report)
   \<and> (\<exists>s'. earnings_surprises america_finance_report
               = asia_earnings_surprises (fst (get_asia_tech_exposure earnings_yf s'))
          \<and> sentiment america_finance_report = None)
   \<and> (\<exists>ticker earning estimate. ticker \<in> set asia_tech_stocks
         \<and> ''TSM'' = company_name ticker
         \<and> earnings earnings_yf ticker = Inr (Some (earning, estimate))
         \<and> fgt (estimate_or_0 estimate) (Fin 0)
         \<and> fgt (fabs (surprise_percent earning (estimate_or_0 estimate))) (Fin 1)
         \<and> Fin 10 = fround2 (surprise_percent earning (estimate_or_0 estimate)))"
proof -
  note t = earnings_surprises_from_asia_tech [of earnings_yf const_fns "init_agent 0"
          "''North America''" "Some ''Finance''" america_finance_report,
          rule_format, OF america_finance_run]
  have es: "earnings_surprises america_finance_report = [(''TSM'', Fin 10)]"
    by (simp add: america_finance_report_def)
  have nt: "''TSM'' \<notin> set (report_tickers america_finance_report)"
    by (simp add: america_finance_report_def)
  have rg: "''North America'' \<noteq> ''Asia''" by simp
  have a: "\<exists>s'. earnings_surprises america_finance_report
               = asia_earnings_surprises (fst (get_asia_tech_exposure earnings_yf s'))
          \<and> sentiment america_finance_report = None"
    using t [THEN conjunct1] unfolding if_not_P [OF rg] .
  have mem: "(''TSM'', Fin 10) \<in> set (earnings_surprises america_finance_report)"
    by (simp add: es)
  have b: "\<exists>ticker earning estimate. ticker \<in> set asia_tech_stocks
         \<and> ''TSM'' = company_name ticker
         \<and> earnings earnings_yf ticker = Inr (Some (earning, estimate))
         \<and> fgt (estimate_or_0 estimate) (Fin 0)
         \<and> fgt (fabs (surprise_percent earning (estimate_or_0 estimate))) (Fin 1)
         \<and> Fin 10 = fround2 (surprise_percent earning (estimate_or_0 estimate))"
    by (rule t [THEN conjunct2, rule_format, OF mem])
  show ?thesis by (intro conjI america_finance_run es nt a b)
qed

section \<open>Properties of analyze_portfolio\<close>

text \<open>
  Blending two copies of one return Series with weights one half each gives the Series
  back: the indexes are the same, so the additions are entry by entry, and no entry of
  a Series that went through \<open>dropna\<close> is \<open>NaN\<close>.
\<close>

lemma dropna_not_nan: "(l, v) \<in> set (dropna xs) \<Longrightarrow> \<not> is_nan v"
  by (auto simp add: dropna_def)

lemma series_add_fill_same_index:
  "series_add_fill (map (\<lambda>(l, v). (l, f v)) xs) (map (\<lambda>(l, v). (l, g v)) xs)
     = map (\<lambda>(l, v). (l, fill_add (f v) (g v))) xs"
proof -
  have ix: "map fst (map (\<lambda>(l, v). (l, f v)) xs) = map fst (map (\<lambda>(l, v). (l, g v)) xs)"
    by (induction xs) auto
  have "map (\<lambda>((l, x), (l', y)). (l, fill_add x y))
          (zip (map (\<lambda>(l, v). (l, f v)) xs) (map (\<lambda>(l, v). (l, g v)) xs))
        = map (\<lambda>(l, v). (l, fill_add (f v) (g v))) xs"
    by (induction xs) auto
  then show ?thesis
    unfolding series_add_fill_def using ix by simp
qed

lemma half_twice:
  "\<not> is_nan v \<Longrightarrow>
     fill_add (fill_add (Fin 0) (fmul v (Fin (1 / 2)))) (fmul v (Fin (1 / 2))) = v"
  by (cases v) (simp_all add: fill_add_def inf_of_sign_def)

lemma blend_identical:
  assumes "\<forall>(l, v) \<in> set R. \<not> is_nan v"
  shows "blend_loop (zip [''AAA'', ''BBB''] [Fin (1 / 2), Fin (1 / 2)])
           [(''AAA'', R), (''BBB'', R)] (map (\<lambda>(l, v). (l, Fin 0)) R) = R"
proof -
  have sc: "series_scale R (Fin (1 / 2)) = map (\<lambda>(l, v). (l, fmul v (Fin (1 / 2)))) R"
    by (simp add: series_scale_def)
  have one: "series_add_fill (map (\<lambda>(l, v). (l, Fin 0)) R) (series_scale R (Fin (1 / 2)))
               = map (\<lambda>(l, v). (l, fill_add (Fin 0) (fmul v (Fin (1 / 2))))) R"
    unfolding sc by (rule series_add_fill_same_index)
  have two: "series_add_fill (map (\<lambda>(l, v). (l, fill_add (Fin 0) (fmul v (Fin (1 / 2))))) R)
               (series_scale R (Fin (1 / 2)))
             = map (\<lambda>(l, v). (l, fill_add (fill_add (Fin 0) (fmul v (Fin (1 / 2))))
                                    (fmul v (Fin (1 / 2))))) R"
    unfolding sc by (rule series_add_fill_same_index)
  have same: "map (\<lambda>(l, v). (l, fill_add (fill_add (Fin 0) (fmul v (Fin (1 / 2))))
                                    (fmul v (Fin (1 / 2))))) R = R"
    using assms by (induction R) (auto simp add: half_twice)
  show ?thesis
    by (simp add: one two same)
qed

text \<open>
  The correlation of a column with an equal one: the sum of squared deviations is zero
  exactly when the finite values are all equal, and the coefficient is 1 when it is
  not zero.
\<close>

lemma sum_list_sq_zero:
  fixes xs :: "real list"
  shows "sum_list (map (\<lambda>x. (x - m) * (x - m)) xs) = 0 \<longleftrightarrow> (\<forall>x \<in> set xs. x = m)"
proof (induction xs)
  case Nil
  then show ?case by simp
next
  case (Cons a xs)
  have nn: "0 \<le> sum_list (map (\<lambda>x. (x - m) * (x - m)) xs)"
    by (rule sum_list_nonneg) auto
  have sq: "0 \<le> (a - m) * (a - m)" by simp
  show ?case
  proof
    assume "sum_list (map (\<lambda>x. (x - m) * (x - m)) (a # xs)) = 0"
    then have "(a - m) * (a - m) + sum_list (map (\<lambda>x. (x - m) * (x - m)) xs) = 0" by simp
    with nn sq have "(a - m) * (a - m) = 0 \<and> sum_list (map (\<lambda>x. (x - m) * (x - m)) xs) = 0"
      by linarith
    then show "\<forall>x \<in> set (a # xs). x = m" using Cons.IH by simp
  next
    assume "\<forall>x \<in> set (a # xs). x = m"
    then show "sum_list (map (\<lambda>x. (x - m) * (x - m)) (a # xs)) = 0"
      using Cons.IH by simp
  qed
qed

lemma sumsq_dev_nonneg: "0 \<le> sumsq_dev xs"
  unfolding sumsq_dev_def by (rule sum_list_nonneg) auto

lemma sum_list_const:
  fixes xs :: "real list"
  shows "\<forall>x \<in> set xs. x = c \<Longrightarrow> sum_list xs = c * real (length xs)"
  by (induction xs) (auto simp add: algebra_simps)

lemma sumsq_dev_nonzero_iff:
  "sumsq_dev xs \<noteq> 0 \<longleftrightarrow> (\<exists>x \<in> set xs. \<exists>y \<in> set xs. x \<noteq> y)"
proof
  assume "sumsq_dev xs \<noteq> 0"
  then have "\<not> (\<forall>x \<in> set xs. x = mean_real xs)"
    unfolding sumsq_dev_def using sum_list_sq_zero [of "mean_real xs" xs] by simp
  then obtain x where x: "x \<in> set xs" "x \<noteq> mean_real xs" by blast
  show "\<exists>x \<in> set xs. \<exists>y \<in> set xs. x \<noteq> y"
  proof (rule ccontr)
    assume "\<not> (\<exists>x \<in> set xs. \<exists>y \<in> set xs. x \<noteq> y)"
    then have all: "\<forall>y \<in> set xs. y = x" using x(1) by blast
    have ne: "xs \<noteq> []" using x(1) by auto
    have "sum_list xs = x * real (length xs)" by (rule sum_list_const [OF all])
    then have "mean_real xs = x" using ne by (simp add: mean_real_def)
    with x(2) show False by simp
  qed
next
  assume "\<exists>x \<in> set xs. \<exists>y \<in> set xs. x \<noteq> y"
  then obtain x y where xy: "x \<in> set xs" "y \<in> set xs" "x \<noteq> y" by blast
  then have "\<not> (\<forall>x \<in> set xs. x = mean_real xs)" by metis
  then show "sumsq_dev xs \<noteq> 0"
    unfolding sumsq_dev_def using sum_list_sq_zero [of "mean_real xs" xs] by simp
qed

lemma sum_cross_same: "sum_cross xs xs = sumsq_dev xs"
proof -
  have "map (\<lambda>(x, y). (x - m) * (y - m)) (zip xs xs) = map (\<lambda>x. (x - m) * (x - m)) xs" for m :: real
    by (induction xs) auto
  then show ?thesis by (simp add: sum_cross_def sumsq_dev_def)
qed

lemma nancorr_same:
  "nancorr (paired_rows R R)
     = (if sumsq_dev (finite_values R) \<noteq> 0 then Fin 1 else NaN)"
proof -
  let ?vs = "map snd R"
  have pr: "paired_rows R R = map (\<lambda>v. (v, v)) ?vs"
    unfolding paired_rows_def by (simp add: zip_same_conv_map)
  have obs: "filter (\<lambda>(x, y). is_fin x \<and> is_fin y) (map (\<lambda>v. (v, v)) ?vs)
               = map (\<lambda>v. (v, v)) (filter is_fin ?vs)"
    by (induction R) auto
  have xs: "map (\<lambda>(x, y). real_of_fin x) (map (\<lambda>v. (v, v)) (filter is_fin ?vs))
              = finite_values R"
    by (simp add: finite_values_def comp_def)
  have ys: "map (\<lambda>(x, y). real_of_fin y) (map (\<lambda>v. (v, v)) (filter is_fin ?vs))
              = finite_values R"
    by (simp add: finite_values_def comp_def)
  have len: "length (map (\<lambda>v. (v, v)) (filter is_fin ?vs)) = length (finite_values R)"
    by (simp add: finite_values_def)
  have root: "sqrt (sumsq_dev (finite_values R) * sumsq_dev (finite_values R))
                = sumsq_dev (finite_values R)"
    using sumsq_dev_nonneg [of "finite_values R"] by simp
  have empty: "length (finite_values R) < 1 \<Longrightarrow> sumsq_dev (finite_values R) = 0"
    by (simp add: sumsq_dev_def)
  show ?thesis
    unfolding nancorr_def pr obs Let_def xs ys len root sum_cross_same
    using empty by auto
qed

lemma fround2_one: "fround2 (Fin 1) = Fin 1"
  by (simp add: round_half_even_def)

lemma corr_identical:
  "map_of (the (map_of (correlation_matrix_of [(''AAA'', R), (''BBB'', R)]) ''AAA'')) ''BBB''
     = Some (if sumsq_dev (finite_values R) \<noteq> 0 then Fin 1 else NaN)"
  by (simp add: correlation_matrix_of_def nancorr_same round_half_even_def)

text \<open>The run of \<open>analyze_portfolio\<close> on two tickers whose returns are the same.\<close>

lemma normalize_halves:
  "normalize_weights [Fin (1 / 2), Fin (1 / 2)] = Inr [Fin (1 / 2), Fin (1 / 2)]"
  by (simp add: normalize_weights_def py_sum_def)

lemma calculate_volatility_short:
  assumes "dropna (pct_change prices) = R" and "length R \<le> 20"
  shows "calculate_volatility prices 20 = fmul (std R) (Fin (sqrt 252))"
  using assms by (simp add: calculate_volatility_def Let_def iloc_last_def)


lemma year_lookups3:
  assumes "year_lookups yf s [a, b, c] = [ra, rb, rc]"
  shows "\<exists>s1 s2 s3. get_stock_data yf s a ''1y'' ''1d'' = (ra, s1)
           \<and> get_stock_data yf s1 b ''1y'' ''1d'' = (rb, s2)
           \<and> get_stock_data yf s2 c ''1y'' ''1d'' = (rc, s3)"
proof -
  obtain x1 s1 where g1: "get_stock_data yf s a ''1y'' ''1d'' = (x1, s1)"
    by (cases "get_stock_data yf s a ''1y'' ''1d''")
  obtain x2 s2 where g2: "get_stock_data yf s1 b ''1y'' ''1d'' = (x2, s2)"
    by (cases "get_stock_data yf s1 b ''1y'' ''1d''")
  obtain x3 s3 where g3: "get_stock_data yf s2 c ''1y'' ''1d'' = (x3, s3)"
    by (cases "get_stock_data yf s2 c ''1y'' ''1d''")
  from assms have "x1 = ra \<and> x2 = rb \<and> x3 = rc"
    by (simp add: g1 g2 g3)
  with g1 g2 g3 show ?thesis by blast
qed

lemma portfolio_run_same_returns:
  assumes lk: "year_lookups yf s [''^GSPC'', ''AAA'', ''BBB'']
                 = [Inr market_data, Inr data_a, Inr data_b]"
    and ra: "dropna (pct_change (close_of data_a)) = R"
    and rb: "dropna (pct_change (close_of data_b)) = R"
  shows "\<exists>r. fst (analyze_portfolio yf fns s [''AAA'', ''BBB'']
                    (Some [Fin (1 / 2), Fin (1 / 2)])) = Inr r
           \<and> pf_weights r = [Fin (1 / 2), Fin (1 / 2)]
           \<and> pf_volatility r = fmul (fmul (std R) (Fin (sqrt 252))) (Fin 100)
           \<and> corr_entry r ''AAA'' ''BBB''
               = Some (if sumsq_dev (finite_values R) \<noteq> 0 then Fin 1 else NaN)"
proof -
  from year_lookups3 [OF lk] obtain s1 s2 s3 where
    g1: "get_stock_data yf s ''^GSPC'' ''1y'' ''1d'' = (Inr market_data, s1)" and
    g2: "get_stock_data yf s1 ''AAA'' ''1y'' ''1d'' = (Inr data_a, s2)" and
    g3: "get_stock_data yf s2 ''BBB'' ''1y'' ''1d'' = (Inr data_b, s3)"
    by blast
  have nn: "\<forall>(l, v) \<in> set R. \<not> is_nan v"
    using dropna_not_nan [of _ _ "pct_change (close_of data_a)"] unfolding ra by auto
  obtain ma mb where
    loop: "portfolio_loop yf fns market_data [''AAA'', ''BBB''] [] [] s1
             = ([(''AAA'', R), (''BBB'', R)], [(''AAA'', Inr ma), (''BBB'', Inr mb)], s3)"
    by (simp add: g2 g3 ra rb Let_def)
  let ?r = "\<lparr>pf_tickers = [''AAA'', ''BBB''],
             pf_weights = [Fin (1 / 2), Fin (1 / 2)],
             individual_metrics = [(''AAA'', Inr ma), (''BBB'', Inr mb)],
             pf_volatility = fmul (fmul (std R) (Fin (sqrt 252))) (Fin 100),
             pf_beta = portfolio_beta_loop (zip [''AAA'', ''BBB''] [Fin (1 / 2), Fin (1 / 2)])
                         [(''AAA'', Inr ma), (''BBB'', Inr mb)] (Fin 0),
             pf_sharpe_ratio = calculate_sharpe_ratio fns R,
             pf_max_drawdown = max_drawdown (calculate_drawdown (portfolio_value_of R)),
             pf_drawdown_duration = duration (calculate_drawdown (portfolio_value_of R)),
             pf_var_95 = calculate_var fns R,
             correlation_matrix = correlation_matrix_of [(''AAA'', R), (''BBB'', R)]\<rparr>"
  have run: "fst (analyze_portfolio yf fns s [''AAA'', ''BBB'']
                    (Some [Fin (1 / 2), Fin (1 / 2)])) = Inr ?r"
    unfolding analyze_portfolio_def
    by (simp only: option.case normalize_halves sum.case g1 prod.case loop list.case Let_def
          blend_identical [OF nn] fst_conv)
  have ce: "corr_entry ?r ''AAA'' ''BBB''
              = Some (if sumsq_dev (finite_values R) \<noteq> 0 then Fin 1 else NaN)"
    using corr_identical [of R]
    by (simp add: corr_entry_def correlation_matrix_of_def)
  have "fst (analyze_portfolio yf fns s [''AAA'', ''BBB'']
                    (Some [Fin (1 / 2), Fin (1 / 2)])) = Inr ?r
           \<and> pf_weights ?r = [Fin (1 / 2), Fin (1 / 2)]
           \<and> pf_volatility ?r = fmul (fmul (std R) (Fin (sqrt 252))) (Fin 100)
           \<and> corr_entry ?r ''AAA'' ''BBB''
               = Some (if sumsq_dev (finite_values R) \<noteq> 0 then Fin 1 else NaN)"
    using run ce by simp
  then show ?thesis by blast
qed

lemma proportional_lookups:
  "year_lookups proportional_yf (init_agent 0) [''^GSPC'', ''AAA'', ''BBB'']
     = [Inr [(1, Fin 100), (2, Fin 101), (3, Fin 100)],
        Inr [(1, Fin 10), (2, Fin 11), (3, Fin 11)],
        Inr [(1, Fin 20), (2, Fin 22), (3, Fin 22)]]"
  by (simp add: proportional_yf_def get_stock_data_def init_agent_def cache_key_of_def
      expiry_get_def Let_def)

lemma proportional_returns:
  "dropna (pct_change (close_of [(1, Fin 10), (2, Fin 11), (3, Fin 11)]))
     = [(Ts 2, Fin (1 / 10)), (Ts 3, Fin 0)]"
  "dropna (pct_change (close_of [(1, Fin 20), (2, Fin 22), (3, Fin 22)]))
     = [(Ts 2, Fin (1 / 10)), (Ts 3, Fin 0)]"
  by (simp_all add: dropna_def pct_change_def close_of_def fsub_def)

lemma flat_lookups:
  "year_lookups (steady_yf flat_frame) (init_agent 0) [''^GSPC'', ''AAA'', ''BBB'']
     = [Inr flat_frame, Inr flat_frame, Inr flat_frame]"
  by (simp add: steady_yf_def get_stock_data_def init_agent_def cache_key_of_def
      expiry_get_def Let_def)

lemma flat_returns:
  "dropna (pct_change (close_of flat_frame)) = [(Ts 2, Fin 0), (Ts 3, Fin 0)]"
  by (simp add: flat_frame_def dropna_def pct_change_def close_of_def fsub_def)

text \<open>
  C8 (as the code has it). Take the portfolio \<open>["AAA", "BBB"]\<close> with weights
  \<open>[0.5, 0.5]\<close>, an agent whose lookups of the benchmark and of the two tickers all
  return frames, and let the returns of both tickers be the same Series \<open>R\<close>. Then
  the blended Series is \<open>R\<close>; the portfolio volatility is the annualised sample
  standard deviation of the whole of \<open>R\<close>, in percent, which is the figure that
  \<open>calculate_volatility\<close> gives for a ticker when \<open>R\<close> has at most 20 entries; and
  the entry of the correlation matrix for \<open>AAA\<close> and \<open>BBB\<close> is 1.0 when the finite
  values of \<open>R\<close> are not all equal, and \<open>NaN\<close> otherwise.
\<close>

theorem analyze_portfolio_identical_returns:
  assumes lk: "year_lookups yf s [''^GSPC'', ''AAA'', ''BBB'']
                 = [Inr market_data, Inr data_a, Inr data_b]"
    and ra: "dropna (pct_change (close_of data_a)) = R"
    and rb: "dropna (pct_change (close_of data_b)) = R"
  shows "blend_loop (zip [''AAA'', ''BBB''] [Fin (1 / 2), Fin (1 / 2)])
           [(''AAA'', R), (''BBB'', R)] (map (\<lambda>(l, v). (l, Fin 0)) R) = R
       \<and> portfolio_volatility_of
           (fst (analyze_portfolio yf fns s [''AAA'', ''BBB''] (Some [Fin (1 / 2), Fin (1 / 2)])))
           = Some (fmul (fmul (std R) (Fin (sqrt 252))) (Fin 100))
       \<and> (length R \<le> 20 \<longrightarrow>
            portfolio_volatility_of
              (fst (analyze_portfolio yf fns s [''AAA'', ''BBB'']
                      (Some [Fin (1 / 2), Fin (1 / 2)])))
              = Some (fmul (calculate_volatility (close_of data_a) 20) (Fin 100)))
       \<and> correlation_of
           (fst (analyze_portfolio yf fns s [''AAA'', ''BBB''] (Some [Fin (1 / 2), Fin (1 / 2)])))
           ''AAA'' ''BBB''
           = Some (if \<exists>x \<in> set (finite_values R). \<exists>y \<in> set (finite_values R). x \<noteq> y
                   then Fin 1 else NaN)"
proof -
  have nn: "\<forall>(l, v) \<in> set R. \<not> is_nan v"
    using dropna_not_nan [of _ _ "pct_change (close_of data_a)"] unfolding ra by auto
  from portfolio_run_same_returns [OF lk ra rb, of fns] obtain r where
    r: "fst (analyze_portfolio yf fns s [''AAA'', ''BBB'']
              (Some [Fin (1 / 2), Fin (1 / 2)])) = Inr r"
       "pf_volatility r = fmul (fmul (std R) (Fin (sqrt 252))) (Fin 100)"
       "corr_entry r ''AAA'' ''BBB''
          = Some (if sumsq_dev (finite_values R) \<noteq> 0 then Fin 1 else NaN)"
    by blast
  have b: "blend_loop (zip [''AAA'', ''BBB''] [Fin (1 / 2), Fin (1 / 2)])
           [(''AAA'', R), (''BBB'', R)] (map (\<lambda>(l, v). (l, Fin 0)) R) = R"
    by (rule blend_identical [OF nn])
  have v: "portfolio_volatility_of
           (fst (analyze_portfolio yf fns s [''AAA'', ''BBB''] (Some [Fin (1 / 2), Fin (1 / 2)])))
           = Some (fmul (fmul (std R) (Fin (sqrt 252))) (Fin 100))"
    by (simp add: portfolio_volatility_of_def r(1) r(2))
  have w: "length R \<le> 20 \<longrightarrow>
            portfolio_volatility_of
              (fst (analyze_portfolio yf fns s [''AAA'', ''BBB'']
                      (Some [Fin (1 / 2), Fin (1 / 2)])))
              = Some (fmul (calculate_volatility (close_of data_a) 20) (Fin 100))"
    unfolding v using calculate_volatility_short [OF ra] by simp
  have c: "correlation_of
           (fst (analyze_portfolio yf fns s [''AAA'', ''BBB''] (Some [Fin (1 / 2), Fin (1 / 2)])))
           ''AAA'' ''BBB''
           = Some (if \<exists>x \<in> set (finite_values R). \<exists>y \<in> set (finite_values R). x \<noteq> y
                   then Fin 1 else NaN)"
    unfolding correlation_of_def r(1) sum.case r(3) sumsq_dev_nonzero_iff ..
  show ?thesis by (intro conjI b v w c)
qed

theorem analyze_portfolio_identical_returns_witness:
  "year_lookups proportional_yf (init_agent 0) [''^GSPC'', ''AAA'', ''BBB'']
     = [Inr [(1, Fin 100), (2, Fin 101), (3, Fin 100)],
        Inr [(1, Fin 10), (2, Fin 11), (3, Fin 11)],
        Inr [(1, Fin 20), (2, Fin 22), (3, Fin 22)]]
   \<and> dropna (pct_change (close_of [(1, Fin 10), (2, Fin 11), (3, Fin 11)]))
       = [(Ts 2, Fin (1 / 10)), (Ts 3, Fin 0)]
   \<and> dropna (pct_change (close_of [(1, Fin 20), (2, Fin 22), (3, Fin 22)]))
       = [(Ts 2, Fin (1 / 10)), (Ts 3, Fin 0)]
   \<and> portfolio_volatility_of
       (fst (analyze_portfolio proportional_yf const_fns (init_agent 0) [''AAA'', ''BBB'']
               (Some [Fin (1 / 2), Fin (1 / 2)])))
       = Some (fmul (fmul (std [(Ts 2, Fin (1 / 10)), (Ts 3, Fin 0)]) (Fin (sqrt 252)))
                 (Fin 100))
   \<and> portfolio_volatility_of
       (fst (analyze_portfolio proportional_yf const_fns (init_agent 0) [''AAA'', ''BBB'']
               (Some [Fin (1 / 2), Fin (1 / 2)])))
       = Some (fmul (calculate_volatility (close_of [(1, Fin 10), (2, Fin 11), (3, Fin 11)]) 20)
                 (Fin 100))
   \<and> correlation_of
       (fst (analyze_portfolio proportional_yf const_fns (init_agent 0) [''AAA'', ''BBB'']
               (Some [Fin (1 / 2), Fin (1 / 2)])))
       ''AAA'' ''BBB'' = Some (Fin 1)"
proof -
  note t = analyze_portfolio_identical_returns
             [OF proportional_lookups proportional_returns(1) proportional_returns(2),
              of const_fns]
  have len: "length [(Ts 2, Fin (1 / 10)), (Ts 3, Fin (0::real))] \<le> 20" by simp
  have differ: "\<exists>x \<in> set (finite_values [(Ts 2, Fin (1 / 10)), (Ts 3, Fin 0)]).
                \<exists>y \<in> set (finite_values [(Ts 2, Fin (1 / 10)), (Ts 3, Fin 0)]). x \<noteq> y"
  proof -
    have "(1 / 10 :: real) \<in> set (finite_values [(Ts 2, Fin (1 / 10)), (Ts 3, Fin 0)])"
      and "(0 :: real) \<in> set (finite_values [(Ts 2, Fin (1 / 10)), (Ts 3, Fin 0)])"
      and "(1 / 10 :: real) \<noteq> 0"
      by (simp_all add: finite_values_def)
    then show ?thesis by blast
  qed
  have v: "portfolio_volatility_of
       (fst (analyze_portfolio proportional_yf const_fns (init_agent 0) [''AAA'', ''BBB'']
               (Some [Fin (1 / 2), Fin (1 / 2)])))
       = Some (fmul (fmul (std [(Ts 2, Fin (1 / 10)), (Ts 3, Fin 0)]) (Fin (sqrt 252)))
                 (Fin 100))"
    by (rule t [THEN conjunct2, THEN conjunct1])
  have w: "portfolio_volatility_of
       (fst (analyze_portfolio proportional_yf const_fns (init_agent 0) [''AAA'', ''BBB'']
               (Some [Fin (1 / 2), Fin (1 / 2)])))
       = Some (fmul (calculate_volatility (close_of [(1, Fin 10), (2, Fin 11), (3, Fin 11)]) 20)
                 (Fin 100))"
    by (rule t [THEN conjunct2, THEN conjunct2, THEN conjunct1, rule_format, OF len])
  have c: "correlation_of
       (fst (analyze_portfolio proportional_yf const_fns (init_agent 0) [''AAA'', ''BBB'']
               (Some [Fin (1 / 2), Fin (1 / 2)])))
       ''AAA'' ''BBB'' = Some (Fin 1)"
    using t [THEN conjunct2, THEN conjunct2, THEN conjunct2] unfolding if_P [OF differ] .
  show ?thesis
    by (intro conjI proportional_lookups proportional_returns v w c)
qed

text \<open>
  The claim as worded promises the entry 1.0 for every \<open>R\<close>. With two tickers whose
  price does not move the returns are the same, all zero, and the entry is \<open>NaN\<close>;
  and when the benchmark cannot be fetched the result is the error dict, with no
  volatility and no matrix, whatever the returns of the two tickers.
\<close>

theorem analyze_portfolio_flat_prices_counterexample:
  "dropna (pct_change (close_of flat_frame)) = [(Ts 2, Fin 0), (Ts 3, Fin 0)]
   \<and> year_lookups (steady_yf flat_frame) (init_agent 0) [''^GSPC'', ''AAA'', ''BBB'']
       = [Inr flat_frame, Inr flat_frame, Inr flat_frame]
   \<and> correlation_of
       (fst (analyze_portfolio (steady_yf flat_frame) const_fns (init_agent 0)
               [''AAA'', ''BBB''] (Some [Fin (1 / 2), Fin (1 / 2)])))
       ''AAA'' ''BBB'' = Some NaN
   \<and> fst (analyze_portfolio no_benchmark_yf const_fns (init_agent 0)
               [''AAA'', ''BBB''] (Some [Fin (1 / 2), Fin (1 / 2)]))
       = Inl ''no data''"
proof -
  from portfolio_run_same_returns [OF flat_lookups flat_returns flat_returns, of const_fns]
  obtain r where
    r: "fst (analyze_portfolio (steady_yf flat_frame) const_fns (init_agent 0)
               [''AAA'', ''BBB''] (Some [Fin (1 / 2), Fin (1 / 2)])) = Inr r"
       "corr_entry r ''AAA'' ''BBB''
          = Some (if sumsq_dev (finite_values [(Ts 2, Fin 0), (Ts 3, Fin 0)]) \<noteq> 0
                  then Fin 1 else NaN)"
    by blast
  have z: "sumsq_dev (finite_values [(Ts 2, Fin 0), (Ts 3, Fin 0)]) = 0"
    by (simp add: finite_values_def sumsq_dev_def mean_real_def)
  have c: "correlation_of
       (fst (analyze_portfolio (steady_yf flat_frame) const_fns (init_agent 0)
               [''AAA'', ''BBB''] (Some [Fin (1 / 2), Fin (1 / 2)])))
       ''AAA'' ''BBB'' = Some NaN"
    unfolding correlation_of_def r(1) sum.case r(2) z by simp
  have e: "fst (analyze_portfolio no_benchmark_yf const_fns (init_agent 0)
               [''AAA'', ''BBB''] (Some [Fin (1 / 2), Fin (1 / 2)]))
       = Inl ''no data''"
    by (simp add: analyze_portfolio_def normalize_halves no_benchmark_yf_def
        get_stock_data_def init_agent_def cache_key_of_def expiry_get_def Let_def
        str_of_exn_def)
  show ?thesis by (intro conjI flat_returns flat_lookups c e)
qed

end
